theory Spec2Isabelle
  imports Main "HOL-Library.AList" "HOL-Library.Sublist"
begin

section \<open>The command builder of the streaming worker\<close>

text \<open>
  The worker \<^verbatim>\<open>streaming-worker.js\<close> turns a stream record (a video path and a list
  of platforms) into one relay process. Its command builder
  \<^verbatim>\<open>createFFmpegCommand\<close> is a pure function on strings.

  A platform is a JavaScript object read from JSON; the builder reads four of its
  properties. Each is modelled as an optional string, \<open>None\<close> standing for a property
  that is absent (\<^verbatim>\<open>undefined\<close>).
\<close>

record platform =
  ptype :: "string option"
  server :: "string option"
  streamKey :: "string option"
  url :: "string option"

text \<open>The exception \<^verbatim>\<open>new Error(message)\<close>.\<close>

datatype error = Error string

text \<open>The double quote character, which the builder puts around paths and outputs.\<close>

definition dq :: string where
  "dq = [CHR 0x22]"

text \<open>
  Interpolation \<^verbatim>\<open>${v}\<close> inside a template literal: an absent property is printed
  as the word \<^verbatim>\<open>undefined\<close>.
\<close>

fun interp :: "string option \<Rightarrow> string" where
  "interp None = ''undefined''"
| "interp (Some s) = s"

text \<open>\<^verbatim>\<open>Array.prototype.join\<close> on an array of strings.\<close>

fun join :: "string \<Rightarrow> string list \<Rightarrow> string" where
  "join sep [] = []"
| "join sep [x] = x"
| "join sep (x # y # ys) = x @ sep @ join sep (y # ys)"

text \<open>
  The callback of \<^verbatim>\<open>platforms.map\<close>: an \<^verbatim>\<open>rtmp\<close> platform gives
  \<^verbatim>\<open>rtmp://${server}/${streamKey}\<close>, a \<^verbatim>\<open>custom\<close> platform gives its
  \<^verbatim>\<open>url\<close> property as it is, any other type gives \<^verbatim>\<open>null\<close>.
\<close>

definition outputOf :: "platform \<Rightarrow> string option" where
  "outputOf p =
     (if ptype p = Some ''rtmp'' then
        Some (''rtmp://'' @ interp (server p) @ ''/'' @ interp (streamKey p))
      else if ptype p = Some ''custom'' then url p
      else None)"

text \<open>
  \<^verbatim>\<open>.filter(Boolean)\<close> keeps the truthy entries: \<^verbatim>\<open>null\<close>, \<^verbatim>\<open>undefined\<close>
  and the empty string are dropped.
\<close>

fun truthy :: "string option \<Rightarrow> bool" where
  "truthy None = False"
| "truthy (Some s) = (s \<noteq> [])"

definition outputs :: "platform list \<Rightarrow> string list" where
  "outputs platforms = [s. Some s \<leftarrow> filter truthy (map outputOf platforms)]"

text \<open>The legs of the tee muxer: \<^verbatim>\<open>outputs.map(output => `[f=flv]${output}`)\<close>.\<close>

definition teeLegs :: "string list \<Rightarrow> string list" where
  "teeLegs outs = map (\<lambda>output. ''[f=flv]'' @ output) outs"

text \<open>
  \<^verbatim>\<open>inputs\<close> is the one-element array \<^verbatim>\<open>[`-re -i "${videoPath}"`]\<close>, joined
  with a space.
\<close>

definition inputs :: "string \<Rightarrow> string list" where
  "inputs videoPath = [''-re -i '' @ dq @ videoPath @ dq]"

definition createFFmpegCommand :: "string \<Rightarrow> platform list \<Rightarrow> error + string" where
  "createFFmpegCommand videoPath platforms =
     (let outs = outputs platforms in
      if length outs = 1 then
        Inr (join '' '' (inputs videoPath) @ '' -c:v copy -c:a aac -f flv '' @ dq @ hd outs @ dq)
      else if length outs > 1 then
        Inr (join '' '' (inputs videoPath) @ '' -c:v copy -c:a aac -f tee '' @ dq
             @ join ''|'' (teeLegs outs) @ dq)
      else Inl (Error ''No valid output platforms provided''))"

section \<open>The process supervisor\<close>

subsection \<open>State\<close>

text \<open>
  The worker keeps one mutable object, the \<^verbatim>\<open>Map\<close> \<^verbatim>\<open>activeStreams\<close> from stream
  id to session. Everything else it does is an effect on the outside: it opens log
  streams, spawns and signals processes, and sends statements to the database. The
  model keeps the map, the table of the processes spawned so far, and the trace of the
  effects in the order the code performs them.
\<close>

type_synonym jobId = nat
type_synonym pid = nat
type_synonym sinkId = nat
type_synonym time = nat

text \<open>
  The entry stored by \<^verbatim>\<open>activeStreams.set\<close>. A process handle is the index of the
  process in the table, a log stream is the number of the stream.
\<close>

record session =
  process :: pid
  logFilename :: string
  logStream :: sinkId
  startTime :: time
  platforms :: "platform list"

text \<open>
  A child process: the stream it was spawned for, the executable and arguments given
  to \<^verbatim>\<open>spawn\<close>, the log stream its output is piped to, whether the \<^verbatim>\<open>exit\<close>
  listener has been attached, and its exit code once it has exited (\<open>Some None\<close>
  is an exit by signal, where Node passes the code \<^verbatim>\<open>null\<close>).
\<close>

record proc =
  pjob :: jobId
  pfile :: string
  pargs :: "string list"
  plog :: sinkId
  listener :: bool
  exited :: "int option option"

text \<open>
  The three \<^verbatim>\<open>UPDATE\<close> statements and the \<^verbatim>\<open>SELECT\<close> of the worker, with their
  parameters in the order of the source.
\<close>

datatype query =
    UpdateStarted string time string jobId
  | UpdateEnded string time jobId
  | UpdateError string string jobId
  | SelectDue time

datatype effect =
    OpenSink sinkId string
  | Spawn pid
  | Kill pid string
  | EndSink sinkId
  | Query query
  | RegSet jobId
  | RegDelete jobId
  | PgEnd
  | RedisQuit
  | ProcessExit int

text \<open>
  \<open>now\<close> is the value \<^verbatim>\<open>new Date()\<close> returns; it does not change while a
  synchronous stretch of code runs. Sending a statement with \<^verbatim>\<open>pgClient.query\<close> is
  the effect \<open>Query\<close>; the model has no branch for a statement the client rejects.
  Calls of \<^verbatim>\<open>console.log\<close> are left out.
\<close>

record state =
  activeStreams :: "(jobId \<times> session) list"
  procs :: "proc list"
  sinkCount :: nat
  now :: time
  trace :: "effect list"

definition initial :: "time \<Rightarrow> state" where
  "initial t = \<lparr>activeStreams = [], procs = [], sinkCount = 0, now = t, trace = []\<rparr>"

text \<open>
  The environment: the three configuration strings, and the library functions the
  worker calls whose code is not part of it (\<^verbatim>\<open>path.join\<close>,
  \<^verbatim>\<open>Date.prototype.toISOString\<close>, and the conversion of a stream id to a string
  inside a template literal).
\<close>

record env =
  ffmpegPath :: string
  uploadDir :: string
  logDir :: string
  pathJoin :: "string \<Rightarrow> string \<Rightarrow> string"
  toISOString :: "time \<Rightarrow> string"
  idString :: "jobId \<Rightarrow> string"

subsection \<open>The map\<close>

text \<open>
  A JavaScript \<^verbatim>\<open>Map\<close> iterates in insertion order; \<^verbatim>\<open>set\<close> on a key that is
  present replaces the value where it stands. The map is an association list with
  \<^const>\<open>AList.update\<close> for \<^verbatim>\<open>set\<close>, \<^const>\<open>AList.delete\<close> for \<^verbatim>\<open>delete\<close> and
  \<^const>\<open>map_of\<close> for \<^verbatim>\<open>get\<close>.
\<close>

definition has :: "jobId \<Rightarrow> state \<Rightarrow> bool" where
  "has streamId s = (map_of (activeStreams s) streamId \<noteq> None)"

definition emit :: "effect list \<Rightarrow> state \<Rightarrow> state" where
  "emit es s = s\<lparr>trace := trace s @ es\<rparr>"

subsection \<open>Starting a stream\<close>

text \<open>
  \<^verbatim>\<open>generateLogFilename\<close>: the ISO timestamp with every colon and dot replaced by a
  dash.
\<close>

definition generateLogFilename :: "env \<Rightarrow> time \<Rightarrow> jobId \<Rightarrow> string" where
  "generateLogFilename e t streamId =
     (let timestamp = map (\<lambda>c. if c = CHR '':'' \<or> c = CHR ''.'' then CHR ''-'' else c)
                          (toISOString e t)
      in pathJoin e (logDir e) (''stream-'' @ idString e streamId @ ''-'' @ timestamp @ ''.log''))"

text \<open>\<^verbatim>\<open>String.prototype.split\<close> with a one-character separator.\<close>

fun split :: "char \<Rightarrow> string \<Rightarrow> string list" where
  "split c [] = [[]]"
| "split c (x # xs) =
     (if x = c then [] # split c xs
      else (case split c xs of [] \<Rightarrow> [[x]] | w # ws \<Rightarrow> (x # w) # ws))"

fun message :: "error \<Rightarrow> string" where
  "message (Error m) = m"

text \<open>
  \<^verbatim>\<open>startStream\<close> is an \<^verbatim>\<open>async\<close> function. It runs without interruption up to
  its first \<^verbatim>\<open>await\<close>, where it has sent a statement to the database and waits for
  the answer; other handlers may run before it resumes. \<open>AwaitActive\<close> is the
  \<^verbatim>\<open>await\<close> of the try block (the process handle is what the rest of the block
  needs), \<open>AwaitFailed\<close> the \<^verbatim>\<open>await\<close> of the catch block.
\<close>

datatype start_wait = AwaitActive pid | AwaitFailed

text \<open>The catch block up to its \<^verbatim>\<open>await\<close>.\<close>

definition startStream_catch :: "error \<Rightarrow> jobId \<Rightarrow> state \<Rightarrow> start_wait \<times> state" where
  "startStream_catch err streamId s =
     (AwaitFailed, emit [Query (UpdateError ''failed'' (message err) streamId)] s)"

text \<open>
  The try block up to its \<^verbatim>\<open>await\<close>. \<open>spawnError\<close> is what \<^verbatim>\<open>spawn\<close> does in
  this call: \<open>None\<close> when it returns a process, \<open>Some err\<close> when it throws.
  The arguments handed to \<^verbatim>\<open>spawn\<close> are \<^verbatim>\<open>ffmpegCommand.split(' ').slice(1)\<close>.
\<close>

definition startStream_sync ::
  "env \<Rightarrow> error option \<Rightarrow> jobId \<Rightarrow> string \<Rightarrow> platform list \<Rightarrow> state \<Rightarrow> start_wait \<times> state" where
  "startStream_sync e spawnError streamId videoPath plats s =
     (let logFile = generateLogFilename e (now s) streamId;
          sink = sinkCount s;
          s1 = emit [OpenSink sink logFile] (s\<lparr>sinkCount := Suc sink\<rparr>)
      in case createFFmpegCommand videoPath plats of
           Inl err \<Rightarrow> startStream_catch err streamId s1
         | Inr ffmpegCommand \<Rightarrow>
             (case spawnError of
                Some err \<Rightarrow> startStream_catch err streamId s1
              | None \<Rightarrow>
                  let ffmpegProcess = length (procs s1);
                      s2 = emit [Spawn ffmpegProcess]
                             (s1\<lparr>procs := procs s1 @
                                 [\<lparr>pjob = streamId, pfile = ffmpegPath e,
                                   pargs = drop 1 (split CHR '' '' ffmpegCommand),
                                   plog = sink, listener = False, exited = None\<rparr>]\<rparr>);
                      s3 = emit [RegSet streamId]
                             (s2\<lparr>activeStreams := AList.update streamId
                                   \<lparr>process = ffmpegProcess, logFilename = logFile,
                                    logStream = sink, startTime = now s2, platforms = plats\<rparr>
                                   (activeStreams s2)\<rparr>)
                  in (AwaitActive ffmpegProcess,
                      emit [Query (UpdateStarted ''active'' (now s3) logFile streamId)] s3)))"

text \<open>
  The rest of \<^verbatim>\<open>startStream\<close>: after the \<^verbatim>\<open>await\<close> of the try block the
  \<^verbatim>\<open>exit\<close> listener is attached and the result is \<^verbatim>\<open>true\<close>; after the one of the
  catch block the result is \<^verbatim>\<open>false\<close>.
\<close>

fun startStream_resume :: "start_wait \<Rightarrow> state \<Rightarrow> bool \<times> state" where
  "startStream_resume (AwaitActive p) s =
     (True, if p < length (procs s)
            then s\<lparr>procs := (procs s)[p := (procs s ! p)\<lparr>listener := True\<rparr>]\<rparr> else s)"
| "startStream_resume AwaitFailed s = (False, s)"

text \<open>A call of \<^verbatim>\<open>startStream\<close> that nothing else interleaves with.\<close>

definition startStream ::
  "env \<Rightarrow> error option \<Rightarrow> jobId \<Rightarrow> string \<Rightarrow> platform list \<Rightarrow> state \<Rightarrow> bool \<times> state" where
  "startStream e spawnError streamId videoPath plats s =
     (case startStream_sync e spawnError streamId videoPath plats s of
        (w, s') \<Rightarrow> startStream_resume w s')"

subsection \<open>Stopping a stream\<close>

text \<open>
  \<^verbatim>\<open>stopStream\<close> up to its \<^verbatim>\<open>await\<close>. When the map has no entry the function
  returns \<^verbatim>\<open>false\<close> at once; the flag of the result says whether the call is
  suspended at the \<^verbatim>\<open>await\<close>.
\<close>

definition stopStream_sync :: "jobId \<Rightarrow> state \<Rightarrow> bool \<times> state" where
  "stopStream_sync streamId s =
     (case map_of (activeStreams s) streamId of
        Some entry \<Rightarrow>
          (True, emit [Kill (process entry) ''SIGTERM'', EndSink (logStream entry),
                       Query (UpdateEnded ''stopped'' (now s) streamId)] s)
      | None \<Rightarrow> (False, s))"

text \<open>After the \<^verbatim>\<open>await\<close>: \<^verbatim>\<open>activeStreams.delete(streamId); return true\<close>.\<close>

definition stopStream_resume :: "jobId \<Rightarrow> state \<Rightarrow> bool \<times> state" where
  "stopStream_resume streamId s =
     (True, emit [RegDelete streamId]
              (s\<lparr>activeStreams := AList.delete streamId (activeStreams s)\<rparr>))"

definition stopStream :: "jobId \<Rightarrow> state \<Rightarrow> bool \<times> state" where
  "stopStream streamId s =
     (case stopStream_sync streamId s of
        (True, s') \<Rightarrow> stopStream_resume streamId s'
      | (False, s') \<Rightarrow> (False, s'))"

subsection \<open>The exit listener\<close>

text \<open>
  The listener attached by \<^verbatim>\<open>ffmpegProcess.on('exit', ...)\<close> closes over the
  \<^verbatim>\<open>streamId\<close> and the \<^verbatim>\<open>logStream\<close> of the call of \<^verbatim>\<open>startStream\<close> that
  made it. It is \<^verbatim>\<open>async\<close> too, with one \<^verbatim>\<open>await\<close>.
\<close>

definition exitHandler_sync :: "jobId \<Rightarrow> sinkId \<Rightarrow> int option \<Rightarrow> state \<Rightarrow> state" where
  "exitHandler_sync streamId logStr code s =
     emit [EndSink logStr,
           Query (UpdateEnded (if code = Some 0 then ''completed'' else ''failed'')
                    (now s) streamId)] s"

definition exitHandler_resume :: "jobId \<Rightarrow> state \<Rightarrow> state" where
  "exitHandler_resume streamId s =
     emit [RegDelete streamId] (s\<lparr>activeStreams := AList.delete streamId (activeStreams s)\<rparr>)"

text \<open>
  The operating system reports that process \<open>p\<close> has ended with \<open>code\<close>. Node
  emits \<^verbatim>\<open>exit\<close> once for a process; the listener runs when it is attached by then.
  The result names the stream whose listener is now suspended at its \<^verbatim>\<open>await\<close>.
\<close>

definition processExits :: "pid \<Rightarrow> int option \<Rightarrow> state \<Rightarrow> jobId option \<times> state" where
  "processExits p code s =
     (if p < length (procs s) \<and> exited (procs s ! p) = None then
        let pr = procs s ! p;
            s1 = s\<lparr>procs := (procs s)[p := pr\<lparr>exited := Some code\<rparr>]\<rparr>
        in if listener pr then (Some (pjob pr), exitHandler_sync (pjob pr) (plog pr) code s1)
           else (None, s1)
      else (None, s))"

text \<open>The exit of a process and its listener, with nothing interleaved.\<close>

definition exitReaction :: "pid \<Rightarrow> int option \<Rightarrow> state \<Rightarrow> state" where
  "exitReaction p code s =
     (case processExits p code s of
        (Some streamId, s') \<Rightarrow> exitHandler_resume streamId s'
      | (None, s') \<Rightarrow> s')"

subsection \<open>The scheduler tick\<close>

text \<open>
  A row of the result of the \<^verbatim>\<open>SELECT\<close>; the columns \<^verbatim>\<open>status\<close> and
  \<^verbatim>\<open>plan_active\<close> are selected but never read.
\<close>

record row =
  row_id :: jobId
  title :: string
  video_path :: string
  row_platforms :: "platform list"

text \<open>
  The body of the loop of \<^verbatim>\<open>processScheduledStreams\<close>. \<open>existsSync\<close> is the
  file system as \<^verbatim>\<open>fs.existsSync\<close> sees it; \<open>spawnError\<close> says for which stream
  \<^verbatim>\<open>spawn\<close> throws.
\<close>

definition processRow ::
  "env \<Rightarrow> (string \<Rightarrow> bool) \<Rightarrow> (jobId \<Rightarrow> error option) \<Rightarrow> row \<Rightarrow> state \<Rightarrow> state" where
  "processRow e existsSync spawnError stream s =
     (let videoPath = pathJoin e (uploadDir e) (video_path stream) in
      if \<not> existsSync videoPath then
        emit [Query (UpdateError ''failed'' ''Video file not found'' (row_id stream))] s
      else snd (startStream e (spawnError (row_id stream)) (row_id stream) videoPath
                  (row_platforms stream) s))"

definition processScheduledStreams ::
  "env \<Rightarrow> (string \<Rightarrow> bool) \<Rightarrow> (jobId \<Rightarrow> error option) \<Rightarrow> row list \<Rightarrow> state \<Rightarrow> state" where
  "processScheduledStreams e existsSync spawnError rows s =
     foldl (\<lambda>s' stream. processRow e existsSync spawnError stream s')
           (emit [Query (SelectDue (now s))] s) rows"

subsection \<open>The event loop\<close>

text \<open>
  Node runs one handler at a time and switches only at an \<^verbatim>\<open>await\<close>. A
  configuration is the state together with the calls that are suspended at their
  \<^verbatim>\<open>await\<close>. An event is a start or a stop request, the exit of a process, the
  resumption of a suspended call, the passing of time, or a statement sent by another
  handler.
\<close>

datatype cont = StartCont start_wait | StopCont jobId | ExitCont jobId

fun resume :: "cont \<Rightarrow> state \<Rightarrow> state" where
  "resume (StartCont w) s = snd (startStream_resume w s)"
| "resume (StopCont streamId) s = snd (stopStream_resume streamId s)"
| "resume (ExitCont streamId) s = exitHandler_resume streamId s"

datatype event =
    StartRequest env "error option" jobId string "platform list"
  | StopRequest jobId
  | ExitOf pid "int option"
  | Resume nat
  | Clock time
  | Statement query

fun step :: "state \<times> cont list \<Rightarrow> event \<Rightarrow> state \<times> cont list" where
  "step (s, ks) (StartRequest e spawnError streamId videoPath plats) =
     (case startStream_sync e spawnError streamId videoPath plats s of
        (w, s') \<Rightarrow> (s', ks @ [StartCont w]))"
| "step (s, ks) (StopRequest streamId) =
     (case stopStream_sync streamId s of
        (True, s') \<Rightarrow> (s', ks @ [StopCont streamId])
      | (False, s') \<Rightarrow> (s', ks))"
| "step (s, ks) (ExitOf p code) =
     (case processExits p code s of
        (Some streamId, s') \<Rightarrow> (s', ks @ [ExitCont streamId])
      | (None, s') \<Rightarrow> (s', ks))"
| "step (s, ks) (Resume i) =
     (if i < length ks then (resume (ks ! i) s, take i ks @ drop (Suc i) ks) else (s, ks))"
| "step (s, ks) (Clock t) = (if now s \<le> t then (s\<lparr>now := t\<rparr>, ks) else (s, ks))"
| "step (s, ks) (Statement q) = (emit [Query q] s, ks)"

definition run :: "time \<Rightarrow> event list \<Rightarrow> state \<times> cont list" where
  "run t evs = foldl step (initial t, []) evs"

subsection \<open>Shutdown\<close>

text \<open>
  The \<^verbatim>\<open>SIGTERM\<close> handler is an \<^verbatim>\<open>async\<close> function as well. Its loop awaits one
  call of \<^verbatim>\<open>stopStream\<close> after the other; then it awaits \<^verbatim>\<open>pgClient.end()\<close>, awaits
  \<^verbatim>\<open>redisClient.quit()\<close> and calls \<^verbatim>\<open>process.exit(0)\<close>. At each of these points
  other handlers run. A handler that has started is in one of four places: its call of
  \<^verbatim>\<open>stopStream\<close> is suspended at the \<^verbatim>\<open>await\<close> of that function; the call has
  returned and the \<^verbatim>\<open>await\<close> of the loop has not resumed yet; or it is suspended at
  one of the two \<^verbatim>\<open>await\<close>s after the loop.
\<close>

datatype handler = InStop jobId | AfterStop | AwaitPgEnd | AwaitRedisQuit

text \<open>
  The loop \<^verbatim>\<open>for (const [streamId] of activeStreams)\<close> from the point where the
  iterator is asked for the next entry. The iterator of a \<^verbatim>\<open>Map\<close> is live. When it is
  asked, every entry it has yielded before has been deleted by the call of
  \<^verbatim>\<open>stopStream\<close> the loop made for it, and a key that is set again after its deletion is
  appended at the end; so the entry it yields is the oldest entry the map has at that
  time. With an entry, the loop calls \<^verbatim>\<open>stopStream\<close>, which runs up to its
  \<^verbatim>\<open>await\<close>; without one, the handler calls \<^verbatim>\<open>pgClient.end()\<close>.
\<close>

definition sigtermLoop :: "state \<Rightarrow> handler \<times> state" where
  "sigtermLoop s =
     (case activeStreams s of
        [] \<Rightarrow> (AwaitPgEnd, emit [PgEnd] s)
      | (streamId, _) # _ \<Rightarrow>
          (case stopStream_sync streamId s of
             (True, s') \<Rightarrow> (InStop streamId, s')
           | (False, s') \<Rightarrow> (AfterStop, s')))"

text \<open>
  A suspended handler resumes. The result \<open>None\<close> is the call of
  \<^verbatim>\<open>process.exit(0)\<close>.
\<close>

fun sigtermResume :: "handler \<Rightarrow> state \<Rightarrow> handler option \<times> state" where
  "sigtermResume (InStop streamId) s = (Some AfterStop, snd (stopStream_resume streamId s))"
| "sigtermResume AfterStop s = (case sigtermLoop s of (h, s') \<Rightarrow> (Some h, s'))"
| "sigtermResume AwaitPgEnd s = (Some AwaitRedisQuit, emit [RedisQuit] s)"
| "sigtermResume AwaitRedisQuit s = (None, emit [ProcessExit 0] s)"

text \<open>
  The event loop with the signal. A configuration also holds the handlers that have
  started and whether the worker has exited; after \<^verbatim>\<open>process.exit\<close> nothing runs.
\<close>

datatype signal_event = Loop event | Sigterm | ResumeHandler nat

fun stepS ::
  "state \<times> cont list \<times> handler list \<times> bool \<Rightarrow> signal_event
   \<Rightarrow> state \<times> cont list \<times> handler list \<times> bool" where
  "stepS (s, ks, hs, True) ev = (s, ks, hs, True)"
| "stepS (s, ks, hs, False) (Loop ev) =
     (case step (s, ks) ev of (s', ks') \<Rightarrow> (s', ks', hs, False))"
| "stepS (s, ks, hs, False) Sigterm =
     (case sigtermLoop s of (h, s') \<Rightarrow> (s', ks, hs @ [h], False))"
| "stepS (s, ks, hs, False) (ResumeHandler i) =
     (if i < length hs then
        (case sigtermResume (hs ! i) s of
           (Some h, s') \<Rightarrow> (s', ks, hs[i := h], False)
         | (None, s') \<Rightarrow> (s', ks, take i hs @ drop (Suc i) hs, True))
      else (s, ks, hs, False))"


subsection \<open>A race and a count\<close>

text \<open>
  A stop request for a stream and the exit of a process of that stream, each a call with
  one \<^verbatim>\<open>await\<close>: the six orders in which the event loop can run their two halves.
  In the last one the listener has finished before the stop request arrives, so the stop
  request finds no entry and is not suspended.
\<close>

definition stopExitInterleavings :: "jobId \<Rightarrow> pid \<Rightarrow> int option \<Rightarrow> event list list" where
  "stopExitInterleavings streamId p code =
     [[StopRequest streamId, Resume 0, ExitOf p code, Resume 0],
      [StopRequest streamId, ExitOf p code, Resume 0, Resume 0],
      [StopRequest streamId, ExitOf p code, Resume 1, Resume 0],
      [ExitOf p code, StopRequest streamId, Resume 1, Resume 0],
      [ExitOf p code, StopRequest streamId, Resume 0, Resume 0],
      [ExitOf p code, Resume 0, StopRequest streamId]]"

text \<open>The processes spawned for a stream that have not exited.\<close>

definition liveProcs :: "jobId \<Rightarrow> state \<Rightarrow> pid list" where
  "liveProcs streamId s =
     filter (\<lambda>p. pjob (procs s ! p) = streamId \<and> exited (procs s ! p) = None)
            [0..<length (procs s)]"

section \<open>Sample inputs\<close>

text \<open>
  Platforms used to run the definitions: two of type \<^verbatim>\<open>rtmp\<close> (one with an empty
  server and key), two of type \<^verbatim>\<open>custom\<close> (one with an empty url) and one of a type
  the builder does not know.
\<close>

definition exRtmp :: platform where
  "exRtmp = \<lparr>ptype = Some ''rtmp'', server = Some ''live.example/app'', streamKey = Some ''k1'', url = None\<rparr>"

definition exRtmpEmpty :: platform where
  "exRtmpEmpty = \<lparr>ptype = Some ''rtmp'', server = Some [], streamKey = Some [], url = None\<rparr>"

definition exCustom :: platform where
  "exCustom = \<lparr>ptype = Some ''custom'', server = None, streamKey = None, url = Some ''srt://h:9''\<rparr>"

definition exCustomEmpty :: platform where
  "exCustomEmpty = \<lparr>ptype = Some ''custom'', server = None, streamKey = None, url = Some []\<rparr>"

definition exOther :: platform where
  "exOther = \<lparr>ptype = Some ''hls'', server = Some ''s'', streamKey = Some ''k'', url = Some ''u''\<rparr>"

text \<open>
  An environment, the state after stream 1 has been started in it, the state after
  streams 1 and 2 have been started, and two rows of a scheduler result.
\<close>

definition exEnv :: env where
  "exEnv = \<lparr>ffmpegPath = ''ffmpeg'', uploadDir = ''uploads'', logDir = ''logs'',
            pathJoin = (\<lambda>a b. a @ ''/'' @ b),
            toISOString = (\<lambda>t. ''2024-01-01T00:00:00.000Z''),
            idString = (\<lambda>n. replicate n CHR ''1'')\<rparr>"

definition exActive :: state where
  "exActive = snd (startStream exEnv None 1 ''uploads/a.mp4'' [exRtmp] (initial 0))"

definition exActive2 :: state where
  "exActive2 = snd (startStream exEnv None 2 ''uploads/b.mp4'' [exCustom] exActive)"

definition exRowA :: row where
  "exRowA = \<lparr>row_id = 1, title = ''first'', video_path = ''a.mp4'', row_platforms = [exRtmp]\<rparr>"

definition exRowB :: row where
  "exRowB = \<lparr>row_id = 2, title = ''second'', video_path = ''b.mp4'', row_platforms = [exCustom]\<rparr>"

text \<open>A file system without any file, and a \<^verbatim>\<open>spawn\<close> that never throws.\<close>

definition exNoFiles :: "string \<Rightarrow> bool" where
  "exNoFiles f = False"

definition exOnlyB :: "string \<Rightarrow> bool" where
  "exOnlyB f = (f = ''uploads/b.mp4'')"

definition exSpawnOk :: "jobId \<Rightarrow> error option" where
  "exSpawnOk streamId = None"


text \<open>
  A start request for stream 1 from the initial state, the exit of the spawned process
  with code 1 while \<^verbatim>\<open>startStream\<close> is suspended at its \<^verbatim>\<open>await\<close>, and the
  resumption of \<^verbatim>\<open>startStream\<close>.
\<close>

definition exEarlyExit :: "state \<times> cont list" where
  "exEarlyExit =
     run 0 [StartRequest exEnv None 1 ''uploads/a.mp4'' [exRtmp], ExitOf 0 (Some 1), Resume 0]"

section \<open>Properties of the command builder\<close>

lemmas ex_defs = exRtmp_def exRtmpEmpty_def exCustom_def exCustomEmpty_def exOther_def

lemma outputs_Nil: "outputs [] = []"
  by (simp add: outputs_def)

lemma outputs_Cons:
  "outputs (p # ps) =
     (case outputOf p of None \<Rightarrow> outputs ps
      | Some u \<Rightarrow> if u = [] then outputs ps else u # outputs ps)"
  by (simp add: outputs_def split: option.splits)


lemma length_outputs:
  "length (outputs ps) = length (filter (\<lambda>p. truthy (outputOf p)) ps)"
  by (induction ps) (simp_all add: outputs_Nil outputs_Cons split: option.splits)

lemma outputs_resolved:
  "map outputOf (filter (\<lambda>p. truthy (outputOf p)) ps) = map Some (outputs ps)"
  by (induction ps) (simp_all add: outputs_Nil outputs_Cons split: option.splits)

lemma outputs_supported:
  "outputs (filter (\<lambda>p. ptype p = Some ''rtmp'' \<or> ptype p = Some ''custom'') ps) = outputs ps"
  by (induction ps) (simp_all add: outputs_Nil outputs_Cons outputOf_def split: option.splits)

lemma outputs_unsupported:
  "\<forall>p \<in> set ps. ptype p \<noteq> Some ''rtmp'' \<and> ptype p \<noteq> Some ''custom'' \<Longrightarrow> outputs ps = []"
  by (induction ps) (simp_all add: outputs_Nil outputs_Cons outputOf_def split: option.splits)

lemma createFFmpegCommand_single:
  "outputs ps = [u] \<Longrightarrow>
   createFFmpegCommand v ps =
     Inr (''-re -i '' @ dq @ v @ dq @ '' -c:v copy -c:a aac -f flv '' @ dq @ u @ dq)"
  by (simp add: createFFmpegCommand_def inputs_def)

lemma createFFmpegCommand_tee:
  "2 \<le> length (outputs ps) \<Longrightarrow>
   createFFmpegCommand v ps =
     Inr (''-re -i '' @ dq @ v @ dq @ '' -c:v copy -c:a aac -f tee '' @ dq
          @ join ''|'' (teeLegs (outputs ps)) @ dq)"
  by (simp add: createFFmpegCommand_def inputs_def Let_def)

lemma createFFmpegCommand_none:
  "outputs ps = [] \<Longrightarrow>
   createFFmpegCommand v ps = Inl (Error ''No valid output platforms provided'')"
  by (simp add: createFFmpegCommand_def)

lemma createFFmpegCommand_Inl_iff:
  "(\<exists>err. createFFmpegCommand v ps = Inl err) \<longleftrightarrow> outputs ps = []"
  by (cases "outputs ps") (auto simp add: createFFmpegCommand_def Let_def)

text \<open>
  C3. When the platform list resolves to exactly one output, the builder returns the
  single-output command: video copied, audio encoded with aac, container flv, the one
  output quoted at the end. When it resolves to two or more outputs, the builder returns
  one command for the tee muxer whose legs, joined with a bar, are as many as the
  platforms that resolve, the i-th leg being the i-th output tagged with
  \<^verbatim>\<open>[f=flv]\<close>.
\<close>

theorem createFFmpegCommand_invocation:
  "(outputs ps = [u] \<longrightarrow>
      createFFmpegCommand v ps =
        Inr (''-re -i '' @ dq @ v @ dq @ '' -c:v copy -c:a aac -f flv '' @ dq @ u @ dq)) \<and>
   (2 \<le> length (outputs ps) \<longrightarrow>
      (\<exists>legs. createFFmpegCommand v ps =
                Inr (''-re -i '' @ dq @ v @ dq @ '' -c:v copy -c:a aac -f tee '' @ dq
                     @ join ''|'' legs @ dq) \<and>
              length legs = length (filter (\<lambda>p. truthy (outputOf p)) ps) \<and>
              length legs = length (outputs ps) \<and>
              (\<forall>i < length legs. legs ! i = ''[f=flv]'' @ outputs ps ! i)))"
proof (intro conjI impI)
  assume "outputs ps = [u]"
  then show "createFFmpegCommand v ps =
      Inr (''-re -i '' @ dq @ v @ dq @ '' -c:v copy -c:a aac -f flv '' @ dq @ u @ dq)"
    by (rule createFFmpegCommand_single)
next
  assume many: "2 \<le> length (outputs ps)"
  let ?legs = "teeLegs (outputs ps)"
  have "createFFmpegCommand v ps =
      Inr (''-re -i '' @ dq @ v @ dq @ '' -c:v copy -c:a aac -f tee '' @ dq
           @ join ''|'' ?legs @ dq)"
    using many by (rule createFFmpegCommand_tee)
  moreover have "length ?legs = length (outputs ps)"
    by (simp add: teeLegs_def)
  moreover have "length ?legs = length (filter (\<lambda>p. truthy (outputOf p)) ps)"
    by (simp add: teeLegs_def length_outputs)
  moreover have "\<forall>i < length ?legs. ?legs ! i = ''[f=flv]'' @ outputs ps ! i"
    by (simp add: teeLegs_def)
  ultimately show "\<exists>legs. createFFmpegCommand v ps =
                Inr (''-re -i '' @ dq @ v @ dq @ '' -c:v copy -c:a aac -f tee '' @ dq
                     @ join ''|'' legs @ dq) \<and>
              length legs = length (filter (\<lambda>p. truthy (outputOf p)) ps) \<and>
              length legs = length (outputs ps) \<and>
              (\<forall>i < length legs. legs ! i = ''[f=flv]'' @ outputs ps ! i)"
    by blast
qed

text \<open>
  The theorem at one \<^verbatim>\<open>rtmp\<close> platform, and at a list of four platforms of which
  three resolve (two \<^verbatim>\<open>rtmp\<close>, one \<^verbatim>\<open>custom\<close>).
\<close>

lemma ex_outputs3: "outputs [exRtmp, exOther, exRtmpEmpty, exCustom] = [''rtmp://live.example/app/k1'', ''rtmp:///'', ''srt://h:9'']"
  by (simp add: outputs_def outputOf_def ex_defs)

theorem createFFmpegCommand_invocation_witness:
  "outputs [exRtmp] = [''rtmp://live.example/app/k1''] \<and>
   createFFmpegCommand ''a.mp4'' [exRtmp] =
     Inr (''-re -i '' @ dq @ ''a.mp4'' @ dq @ '' -c:v copy -c:a aac -f flv '' @ dq
          @ ''rtmp://live.example/app/k1'' @ dq) \<and>
   2 \<le> length (outputs [exRtmp, exOther, exRtmpEmpty, exCustom]) \<and>
   createFFmpegCommand ''a.mp4'' [exRtmp, exOther, exRtmpEmpty, exCustom] =
     Inr (''-re -i '' @ dq @ ''a.mp4'' @ dq @ '' -c:v copy -c:a aac -f tee '' @ dq
          @ ''[f=flv]rtmp://live.example/app/k1|[f=flv]rtmp:///|[f=flv]srt://h:9'' @ dq)"
proof -
  have one: "outputs [exRtmp] = [''rtmp://live.example/app/k1'']"
    by (simp add: outputs_def outputOf_def ex_defs)
  have many: "2 \<le> length (outputs [exRtmp, exOther, exRtmpEmpty, exCustom])"
    by (simp add: ex_outputs3)
  from createFFmpegCommand_invocation [of "[exRtmp]" "''rtmp://live.example/app/k1''" "''a.mp4''"] one
  have c1: "createFFmpegCommand ''a.mp4'' [exRtmp] =
     Inr (''-re -i '' @ dq @ ''a.mp4'' @ dq @ '' -c:v copy -c:a aac -f flv '' @ dq
          @ ''rtmp://live.example/app/k1'' @ dq)" by blast
  from createFFmpegCommand_invocation [of "[exRtmp, exOther, exRtmpEmpty, exCustom]" _ "''a.mp4''"] many
  obtain legs where l: "createFFmpegCommand ''a.mp4'' [exRtmp, exOther, exRtmpEmpty, exCustom] =
                Inr (''-re -i '' @ dq @ ''a.mp4'' @ dq @ '' -c:v copy -c:a aac -f tee '' @ dq
                     @ join ''|'' legs @ dq)"
     and n: "length legs = length (outputs [exRtmp, exOther, exRtmpEmpty, exCustom])"
     and e: "\<forall>i < length legs. legs ! i = ''[f=flv]'' @ outputs [exRtmp, exOther, exRtmpEmpty, exCustom] ! i"
    by blast
  from n e have "legs = map (\<lambda>u. ''[f=flv]'' @ u) (outputs [exRtmp, exOther, exRtmpEmpty, exCustom])"
    by (simp add: list_eq_iff_nth_eq)
  then have "join ''|'' legs = ''[f=flv]rtmp://live.example/app/k1|[f=flv]rtmp:///|[f=flv]srt://h:9''"
    by (simp add: ex_outputs3)
  with l one many c1 show ?thesis by simp
qed

text \<open>
  C4. The builder throws the error \<^verbatim>\<open>No valid output platforms provided\<close> on the
  empty list, on every list that resolves to no output, and so on every list of
  platforms of unsupported type only. Platforms of unsupported type do not count: the
  result is the result on the list without them. The builder returns a command exactly
  when some output is left, so it never returns without either a command or the error.
\<close>

theorem createFFmpegCommand_rejects:
  "createFFmpegCommand v [] = Inl (Error ''No valid output platforms provided'') \<and>
   (outputs ps = [] \<longrightarrow>
      createFFmpegCommand v ps = Inl (Error ''No valid output platforms provided'')) \<and>
   ((\<forall>p \<in> set ps. ptype p \<noteq> Some ''rtmp'' \<and> ptype p \<noteq> Some ''custom'') \<longrightarrow>
      createFFmpegCommand v ps = Inl (Error ''No valid output platforms provided'')) \<and>
   createFFmpegCommand v ps =
     createFFmpegCommand v
       (filter (\<lambda>p. ptype p = Some ''rtmp'' \<or> ptype p = Some ''custom'') ps) \<and>
   ((\<exists>cmd. createFFmpegCommand v ps = Inr cmd) \<longleftrightarrow> outputs ps \<noteq> [])"
proof (intro conjI impI)
  show "createFFmpegCommand v [] = Inl (Error ''No valid output platforms provided'')"
    by (simp add: createFFmpegCommand_none outputs_Nil)
next
  assume "outputs ps = []"
  then show "createFFmpegCommand v ps = Inl (Error ''No valid output platforms provided'')"
    by (rule createFFmpegCommand_none)
next
  assume "\<forall>p \<in> set ps. ptype p \<noteq> Some ''rtmp'' \<and> ptype p \<noteq> Some ''custom''"
  then have "outputs ps = []" by (rule outputs_unsupported)
  then show "createFFmpegCommand v ps = Inl (Error ''No valid output platforms provided'')"
    by (rule createFFmpegCommand_none)
next
  show "createFFmpegCommand v ps =
     createFFmpegCommand v
       (filter (\<lambda>p. ptype p = Some ''rtmp'' \<or> ptype p = Some ''custom'') ps)"
    by (simp add: createFFmpegCommand_def outputs_supported)
next
  have "(\<exists>cmd. createFFmpegCommand v ps = Inr cmd) \<longleftrightarrow> \<not> (\<exists>err. createFFmpegCommand v ps = Inl err)"
    by (cases "createFFmpegCommand v ps") simp_all
  then show "(\<exists>cmd. createFFmpegCommand v ps = Inr cmd) \<longleftrightarrow> outputs ps \<noteq> []"
    by (simp add: createFFmpegCommand_Inl_iff)
qed

text \<open>The theorem at a list that filtering empties.\<close>

theorem createFFmpegCommand_rejects_witness:
  "outputs [exOther, exCustomEmpty] = [] \<and>
   createFFmpegCommand ''a.mp4'' [exOther, exCustomEmpty] =
     Inl (Error ''No valid output platforms provided'') \<and>
   ptype exOther \<noteq> Some ''rtmp'' \<and> ptype exOther \<noteq> Some ''custom'' \<and>
   createFFmpegCommand ''a.mp4'' [exOther] =
     Inl (Error ''No valid output platforms provided'')"
proof -
  have a: "outputs [exOther, exCustomEmpty] = []"
    by (simp add: outputs_def outputOf_def ex_defs)
  have b: "\<forall>p \<in> set [exOther]. ptype p \<noteq> Some ''rtmp'' \<and> ptype p \<noteq> Some ''custom''"
    by (simp add: ex_defs)
  from a createFFmpegCommand_rejects [of "''a.mp4''" "[exOther, exCustomEmpty]"]
  have c: "createFFmpegCommand ''a.mp4'' [exOther, exCustomEmpty] =
     Inl (Error ''No valid output platforms provided'')" by blast
  from b createFFmpegCommand_rejects [of "''a.mp4''" "[exOther]"]
  have d: "createFFmpegCommand ''a.mp4'' [exOther] =
     Inl (Error ''No valid output platforms provided'')" by blast
  have e: "ptype exOther \<noteq> Some ''rtmp'' \<and> ptype exOther \<noteq> Some ''custom''"
    by (simp add: ex_defs)
  from a c d e show ?thesis by blast
qed



section \<open>Properties of the supervisor\<close>

subsection \<open>What each operation does to the state\<close>

lemma startStream_sync_build_error:
  assumes "createFFmpegCommand videoPath plats = Inl err"
  shows "startStream_sync e spawnError streamId videoPath plats s =
     (AwaitFailed,
      s\<lparr>sinkCount := Suc (sinkCount s),
        trace := trace s @ [OpenSink (sinkCount s) (generateLogFilename e (now s) streamId),
                            Query (UpdateError ''failed'' (message err) streamId)]\<rparr>)"
  using assms by (simp add: startStream_sync_def startStream_catch_def emit_def Let_def)

lemma startStream_sync_spawn_error:
  assumes "createFFmpegCommand videoPath plats = Inr cmd"
  shows "startStream_sync e (Some err) streamId videoPath plats s =
     (AwaitFailed,
      s\<lparr>sinkCount := Suc (sinkCount s),
        trace := trace s @ [OpenSink (sinkCount s) (generateLogFilename e (now s) streamId),
                            Query (UpdateError ''failed'' (message err) streamId)]\<rparr>)"
  using assms by (simp add: startStream_sync_def startStream_catch_def emit_def Let_def)

lemma startStream_sync_spawned:
  assumes "createFFmpegCommand videoPath plats = Inr cmd"
  shows "startStream_sync e None streamId videoPath plats s =
     (AwaitActive (length (procs s)),
      s\<lparr>activeStreams := AList.update streamId
           \<lparr>process = length (procs s),
            logFilename = generateLogFilename e (now s) streamId,
            logStream = sinkCount s, startTime = now s, platforms = plats\<rparr> (activeStreams s),
        procs := procs s @
           [\<lparr>pjob = streamId, pfile = ffmpegPath e, pargs = drop 1 (split CHR '' '' cmd),
             plog = sinkCount s, listener = False, exited = None\<rparr>],
        sinkCount := Suc (sinkCount s),
        trace := trace s @ [OpenSink (sinkCount s) (generateLogFilename e (now s) streamId),
                            Spawn (length (procs s)), RegSet streamId,
                            Query (UpdateStarted ''active'' (now s)
                                     (generateLogFilename e (now s) streamId) streamId)]\<rparr>)"
  using assms by (simp add: startStream_sync_def emit_def Let_def)

lemma startStream_failed:
  assumes "createFFmpegCommand videoPath plats = Inl err \<or>
           (createFFmpegCommand videoPath plats = Inr cmd \<and> spawnError = Some err)"
  shows "startStream e spawnError streamId videoPath plats s =
     (False,
      s\<lparr>sinkCount := Suc (sinkCount s),
        trace := trace s @ [OpenSink (sinkCount s) (generateLogFilename e (now s) streamId),
                            Query (UpdateError ''failed'' (message err) streamId)]\<rparr>)"
  using assms
  by (auto simp add: startStream_def startStream_sync_build_error startStream_sync_spawn_error)

lemma startStream_started:
  assumes "createFFmpegCommand videoPath plats = Inr cmd"
  shows "startStream e None streamId videoPath plats s =
     (True,
      s\<lparr>activeStreams := AList.update streamId
           \<lparr>process = length (procs s),
            logFilename = generateLogFilename e (now s) streamId,
            logStream = sinkCount s, startTime = now s, platforms = plats\<rparr> (activeStreams s),
        procs := procs s @
           [\<lparr>pjob = streamId, pfile = ffmpegPath e, pargs = drop 1 (split CHR '' '' cmd),
             plog = sinkCount s, listener = True, exited = None\<rparr>],
        sinkCount := Suc (sinkCount s),
        trace := trace s @ [OpenSink (sinkCount s) (generateLogFilename e (now s) streamId),
                            Spawn (length (procs s)), RegSet streamId,
                            Query (UpdateStarted ''active'' (now s)
                                     (generateLogFilename e (now s) streamId) streamId)]\<rparr>)"
  by (simp add: startStream_def startStream_sync_spawned [OF assms])

lemma stopStream_absent:
  "\<not> has streamId s \<Longrightarrow> stopStream streamId s = (False, s)"
  by (simp add: has_def stopStream_def stopStream_sync_def)

lemma stopStream_present:
  assumes "map_of (activeStreams s) streamId = Some entry"
  shows "stopStream streamId s =
     (True,
      s\<lparr>activeStreams := AList.delete streamId (activeStreams s),
        trace := trace s @ [Kill (process entry) ''SIGTERM'', EndSink (logStream entry),
                            Query (UpdateEnded ''stopped'' (now s) streamId),
                            RegDelete streamId]\<rparr>)"
  using assms
  by (simp add: stopStream_def stopStream_sync_def stopStream_resume_def emit_def)

lemma has_delete: "\<not> has streamId (s\<lparr>activeStreams := AList.delete streamId (activeStreams s)\<rparr>)"
  by (simp add: has_def delete_conv')

lemma exitReaction_listening:
  assumes "p < length (procs s)" "exited (procs s ! p) = None" "listener (procs s ! p)"
  shows "exitReaction p code s =
     s\<lparr>activeStreams := AList.delete (pjob (procs s ! p)) (activeStreams s),
       procs := (procs s)[p := (procs s ! p)\<lparr>exited := Some code\<rparr>],
       trace := trace s @ [EndSink (plog (procs s ! p)),
                           Query (UpdateEnded (if code = Some 0 then ''completed'' else ''failed'')
                                    (now s) (pjob (procs s ! p))),
                           RegDelete (pjob (procs s ! p))]\<rparr>"
  using assms
  by (simp add: exitReaction_def processExits_def exitHandler_sync_def exitHandler_resume_def
                emit_def Let_def)

subsection \<open>The sample states\<close>

lemma exRtmp_command:
  "createFFmpegCommand v [exRtmp] =
     Inr (''-re -i '' @ dq @ v @ dq @ '' -c:v copy -c:a aac -f flv '' @ dq
          @ ''rtmp://live.example/app/k1'' @ dq)"
  by (rule createFFmpegCommand_single) (simp add: outputs_def outputOf_def exRtmp_def)

lemma exCustom_command:
  "createFFmpegCommand v [exCustom] =
     Inr (''-re -i '' @ dq @ v @ dq @ '' -c:v copy -c:a aac -f flv '' @ dq
          @ ''srt://h:9'' @ dq)"
  by (rule createFFmpegCommand_single) (simp add: outputs_def outputOf_def exCustom_def)

lemma exActive_registry:
  "activeStreams exActive =
     [(1, \<lparr>process = 0, logFilename = generateLogFilename exEnv 0 1, logStream = 0,
           startTime = 0, platforms = [exRtmp]\<rparr>)]"
  by (simp add: exActive_def startStream_started [OF exRtmp_command] initial_def)

lemma exActive_procs:
  "length (procs exActive) = 1 \<and> pjob (procs exActive ! 0) = 1 \<and>
   plog (procs exActive ! 0) = 0 \<and> listener (procs exActive ! 0) \<and>
   exited (procs exActive ! 0) = None"
  by (simp add: exActive_def startStream_started [OF exRtmp_command] initial_def)

lemma exActive_rest:
  "sinkCount exActive = 1 \<and> now exActive = 0 \<and>
   trace exActive = [OpenSink 0 (generateLogFilename exEnv 0 1), Spawn 0, RegSet 1,
                     Query (UpdateStarted ''active'' 0 (generateLogFilename exEnv 0 1) 1)]"
  by (simp add: exActive_def startStream_started [OF exRtmp_command] initial_def)

lemma exActive_has: "has 1 exActive"
  by (simp add: has_def exActive_registry)

subsection \<open>Starting\<close>

text \<open>
  C1, as stated, fails. \<^verbatim>\<open>startStream\<close> does not look into \<^verbatim>\<open>activeStreams\<close>
  before it spawns. In the sample state stream 1 has a session and one process; a
  further start of stream 1 returns \<^verbatim>\<open>true\<close>, and afterwards two processes exist for
  stream 1, both running.
\<close>

theorem startStream_twice_counterexample:
  "has 1 exActive \<and>
   fst (startStream exEnv None 1 ''uploads/a.mp4'' [exRtmp] exActive) = True \<and>
   length (procs exActive) = 1 \<and>
   length (procs (snd (startStream exEnv None 1 ''uploads/a.mp4'' [exRtmp] exActive))) = 2 \<and>
   length (liveProcs 1 (snd (startStream exEnv None 1 ''uploads/a.mp4'' [exRtmp] exActive))) = 2"
proof -
  have "procs (snd (startStream exEnv None 1 ''uploads/a.mp4'' [exRtmp] exActive)) ! 0
        = procs exActive ! 0"
    using exActive_procs
    by (simp add: startStream_started [OF exRtmp_command] nth_append)
  then show ?thesis
    using exActive_procs exActive_has
    by (simp add: startStream_started [OF exRtmp_command] liveProcs_def upt_rec [of 0]
                  nth_append)
qed

text \<open>
  C1, amended. When the command can be built and \<^verbatim>\<open>spawn\<close> returns, a start request
  for a stream that has a session spawns one more process, stores a session for the new
  process under the stream id, sends the \<^verbatim>\<open>active\<close> update and returns \<^verbatim>\<open>true\<close>;
  nothing is sent to the earlier process. Two start requests in succession for a stream
  that has no session both return \<^verbatim>\<open>true\<close> and spawn two processes, and the session
  left in the map is the one of the second.
\<close>

theorem startStream_not_deduplicated:
  assumes "createFFmpegCommand videoPath plats = Inr cmd"
  shows "(has streamId s \<longrightarrow>
          (\<exists>s'. startStream e None streamId videoPath plats s = (True, s') \<and>
                procs s' = procs s @
                  [\<lparr>pjob = streamId, pfile = ffmpegPath e,
                    pargs = drop 1 (split CHR '' '' cmd),
                    plog = sinkCount s, listener = True, exited = None\<rparr>] \<and>
                map_of (activeStreams s') streamId =
                  Some \<lparr>process = length (procs s),
                        logFilename = generateLogFilename e (now s) streamId,
                        logStream = sinkCount s, startTime = now s, platforms = plats\<rparr> \<and>
                trace s' = trace s @
                  [OpenSink (sinkCount s) (generateLogFilename e (now s) streamId),
                   Spawn (length (procs s)), RegSet streamId,
                   Query (UpdateStarted ''active'' (now s)
                            (generateLogFilename e (now s) streamId) streamId)])) \<and>
         (\<not> has streamId s \<longrightarrow>
          (\<exists>s1 s2. startStream e None streamId videoPath plats s = (True, s1) \<and>
                   has streamId s1 \<and>
                   startStream e None streamId videoPath plats s1 = (True, s2) \<and>
                   length (procs s2) = length (procs s) + 2 \<and>
                   pjob (procs s2 ! length (procs s)) = streamId \<and>
                   pjob (procs s2 ! Suc (length (procs s))) = streamId \<and>
                   (\<exists>entry. map_of (activeStreams s2) streamId = Some entry \<and>
                      process entry = Suc (length (procs s)))))"
proof (intro conjI impI)
  assume "has streamId s"
  show "\<exists>s'. startStream e None streamId videoPath plats s = (True, s') \<and>
                procs s' = procs s @
                  [\<lparr>pjob = streamId, pfile = ffmpegPath e,
                    pargs = drop 1 (split CHR '' '' cmd),
                    plog = sinkCount s, listener = True, exited = None\<rparr>] \<and>
                map_of (activeStreams s') streamId =
                  Some \<lparr>process = length (procs s),
                        logFilename = generateLogFilename e (now s) streamId,
                        logStream = sinkCount s, startTime = now s, platforms = plats\<rparr> \<and>
                trace s' = trace s @
                  [OpenSink (sinkCount s) (generateLogFilename e (now s) streamId),
                   Spawn (length (procs s)), RegSet streamId,
                   Query (UpdateStarted ''active'' (now s)
                            (generateLogFilename e (now s) streamId) streamId)]"
    by (simp add: startStream_started [OF assms] update_conv')
next
  assume "\<not> has streamId s"
  obtain s1 where s1: "startStream e None streamId videoPath plats s = (True, s1)"
    by (simp add: startStream_started [OF assms])
  obtain s2 where s2: "startStream e None streamId videoPath plats s1 = (True, s2)"
    by (simp add: startStream_started [OF assms])
  from s1 have r1: "has streamId s1" "length (procs s1) = Suc (length (procs s))"
       "pjob (procs s1 ! length (procs s)) = streamId"
    by (auto simp add: startStream_started [OF assms] has_def update_conv')
  from s2 r1 have r2: "length (procs s2) = length (procs s) + 2"
       "pjob (procs s2 ! length (procs s)) = streamId"
       "pjob (procs s2 ! Suc (length (procs s))) = streamId"
       "(\<exists>entry. map_of (activeStreams s2) streamId = Some entry \<and>
                      process entry = Suc (length (procs s)))"
    by (auto simp add: startStream_started [OF assms] update_conv' nth_append)
  from s1 s2 r1 r2
  show "\<exists>s1 s2. startStream e None streamId videoPath plats s = (True, s1) \<and>
                   has streamId s1 \<and>
                   startStream e None streamId videoPath plats s1 = (True, s2) \<and>
                   length (procs s2) = length (procs s) + 2 \<and>
                   pjob (procs s2 ! length (procs s)) = streamId \<and>
                   pjob (procs s2 ! Suc (length (procs s))) = streamId \<and>
                   (\<exists>entry. map_of (activeStreams s2) streamId = Some entry \<and>
                      process entry = Suc (length (procs s)))"
    by blast
qed

text \<open>
  The theorem at the sample state (stream 1 has a session) and at the initial state
  (it has none).
\<close>

theorem startStream_not_deduplicated_witness:
  "createFFmpegCommand ''uploads/a.mp4'' [exRtmp] =
     Inr (''-re -i '' @ dq @ ''uploads/a.mp4'' @ dq @ '' -c:v copy -c:a aac -f flv '' @ dq
          @ ''rtmp://live.example/app/k1'' @ dq) \<and>
   has 1 exActive \<and>
   (\<exists>s'. startStream exEnv None 1 ''uploads/a.mp4'' [exRtmp] exActive = (True, s') \<and>
         length (procs s') = 2 \<and>
         (\<exists>entry. map_of (activeStreams s') 1 = Some entry \<and> process entry = 1)) \<and>
   \<not> has 1 (initial 0) \<and>
   (\<exists>s1 s2. startStream exEnv None 1 ''uploads/a.mp4'' [exRtmp] (initial 0) = (True, s1) \<and>
            has 1 s1 \<and>
            startStream exEnv None 1 ''uploads/a.mp4'' [exRtmp] s1 = (True, s2) \<and>
            length (procs s2) = 2)"
proof -
  note inst = startStream_not_deduplicated [OF exRtmp_command, of _ _ exEnv]
  have a: "has 1 exActive" by (rule exActive_has)
  have b: "\<not> has 1 (initial 0)" by (simp add: has_def initial_def)
  from a inst [of 1 exActive "''uploads/a.mp4''"] exActive_procs
  have c: "\<exists>s'. startStream exEnv None 1 ''uploads/a.mp4'' [exRtmp] exActive = (True, s') \<and>
         length (procs s') = 2 \<and>
         (\<exists>entry. map_of (activeStreams s') 1 = Some entry \<and> process entry = 1)"
    by auto
  from b inst [of 1 "initial 0" "''uploads/a.mp4''"]
  have d: "\<exists>s1 s2. startStream exEnv None 1 ''uploads/a.mp4'' [exRtmp] (initial 0) = (True, s1) \<and>
            has 1 s1 \<and>
            startStream exEnv None 1 ''uploads/a.mp4'' [exRtmp] s1 = (True, s2) \<and>
            length (procs s2) = 2"
    by (auto simp add: initial_def)
  from a b c d exRtmp_command show ?thesis by blast
qed

text \<open>
  C5, as stated, fails in one point: a failed start does not touch the map, so a
  session that an earlier start stored for the stream is still there. In the sample state
  stream 1 has a session; a start of stream 1 with no platform returns \<^verbatim>\<open>false\<close>
  and stream 1 still has its session.
\<close>

theorem startStream_failure_counterexample:
  "has 1 exActive \<and>
   createFFmpegCommand ''uploads/a.mp4'' [] = Inl (Error ''No valid output platforms provided'') \<and>
   fst (startStream exEnv None 1 ''uploads/a.mp4'' [] exActive) = False \<and>
   has 1 (snd (startStream exEnv None 1 ''uploads/a.mp4'' [] exActive))"
proof -
  have b: "createFFmpegCommand ''uploads/a.mp4'' [] = Inl (Error ''No valid output platforms provided'')"
    by (simp add: createFFmpegCommand_none outputs_Nil)
  then have "startStream exEnv None 1 ''uploads/a.mp4'' [] exActive =
     (False,
      exActive\<lparr>sinkCount := Suc (sinkCount exActive),
        trace := trace exActive @
          [OpenSink (sinkCount exActive) (generateLogFilename exEnv (now exActive) 1),
           Query (UpdateError ''failed'' (message (Error ''No valid output platforms provided'')) 1)]\<rparr>)"
    by (intro startStream_failed) simp
  with exActive_has b show ?thesis by (simp add: has_def)
qed

text \<open>
  C5, amended. When the builder throws, or \<^verbatim>\<open>spawn\<close> throws, \<^verbatim>\<open>startStream\<close>
  returns \<^verbatim>\<open>false\<close>; after opening the log stream it sends the update with status
  \<^verbatim>\<open>failed\<close> and the message of the error, and nothing else; it leaves the map and
  the table of processes as they were, so the stream has a session afterwards exactly when
  it had one before.
\<close>

theorem startStream_failure:
  assumes "createFFmpegCommand videoPath plats = Inl err \<or>
           (createFFmpegCommand videoPath plats = Inr cmd \<and> spawnError = Some err)"
  shows "\<exists>s'. startStream e spawnError streamId videoPath plats s = (False, s') \<and>
              trace s' = trace s @
                [OpenSink (sinkCount s) (generateLogFilename e (now s) streamId),
                 Query (UpdateError ''failed'' (message err) streamId)] \<and>
              activeStreams s' = activeStreams s \<and>
              procs s' = procs s \<and>
              (has streamId s' \<longleftrightarrow> has streamId s)"
  by (simp add: startStream_failed [OF assms] has_def)

text \<open>
  The theorem at a start whose platforms are all unsupported, and at a start where
  \<^verbatim>\<open>spawn\<close> throws.
\<close>

theorem startStream_failure_witness:
  "createFFmpegCommand ''uploads/a.mp4'' [exOther] = Inl (Error ''No valid output platforms provided'') \<and>
   (\<exists>s'. startStream exEnv None 7 ''uploads/a.mp4'' [exOther] exActive = (False, s') \<and>
         trace s' = trace exActive @
           [OpenSink 1 (generateLogFilename exEnv 0 7),
            Query (UpdateError ''failed'' ''No valid output platforms provided'' 7)] \<and>
         activeStreams s' = activeStreams exActive \<and> \<not> has 7 s') \<and>
   (\<exists>s'. startStream exEnv (Some (Error ''spawn EACCES'')) 7 ''uploads/a.mp4'' [exRtmp] exActive
           = (False, s') \<and>
         trace s' = trace exActive @
           [OpenSink 1 (generateLogFilename exEnv 0 7),
            Query (UpdateError ''failed'' ''spawn EACCES'' 7)] \<and>
         procs s' = procs exActive \<and> \<not> has 7 s')"
proof -
  have a: "createFFmpegCommand ''uploads/a.mp4'' [exOther] = Inl (Error ''No valid output platforms provided'')"
    by (rule createFFmpegCommand_none) (simp add: outputs_def outputOf_def exOther_def)
  have n: "\<not> has 7 exActive" by (simp add: has_def exActive_registry)
  from a have "createFFmpegCommand ''uploads/a.mp4'' [exOther] = Inl (Error ''No valid output platforms provided'') \<or>
           (createFFmpegCommand ''uploads/a.mp4'' [exOther] = Inr [] \<and> None = Some (Error ''No valid output platforms provided''))"
    by simp
  from startStream_failure [OF this, of exEnv 7 exActive] n exActive_rest
  have b: "\<exists>s'. startStream exEnv None 7 ''uploads/a.mp4'' [exOther] exActive = (False, s') \<and>
         trace s' = trace exActive @
           [OpenSink 1 (generateLogFilename exEnv 0 7),
            Query (UpdateError ''failed'' ''No valid output platforms provided'' 7)] \<and>
         activeStreams s' = activeStreams exActive \<and> \<not> has 7 s'"
    by auto
  have "createFFmpegCommand ''uploads/a.mp4'' [exRtmp] = Inl (Error ''spawn EACCES'') \<or>
        (createFFmpegCommand ''uploads/a.mp4'' [exRtmp] =
           Inr (''-re -i '' @ dq @ ''uploads/a.mp4'' @ dq @ '' -c:v copy -c:a aac -f flv '' @ dq
                @ ''rtmp://live.example/app/k1'' @ dq) \<and>
         Some (Error ''spawn EACCES'') = Some (Error ''spawn EACCES''))"
    using exRtmp_command by simp
  from startStream_failure [OF this, of exEnv 7 exActive] n exActive_rest
  have c: "\<exists>s'. startStream exEnv (Some (Error ''spawn EACCES'')) 7 ''uploads/a.mp4'' [exRtmp] exActive
           = (False, s') \<and>
         trace s' = trace exActive @
           [OpenSink 1 (generateLogFilename exEnv 0 7),
            Query (UpdateError ''failed'' ''spawn EACCES'' 7)] \<and>
         procs s' = procs exActive \<and> \<not> has 7 s'"
    by auto
  from a b c show ?thesis by blast
qed

subsection \<open>Stopping\<close>

text \<open>
  C6. When the stream has no session, \<^verbatim>\<open>stopStream\<close> returns \<^verbatim>\<open>false\<close> and
  the state is unchanged, so nothing is sent to the database. When it has a session,
  \<^verbatim>\<open>stopStream\<close> sends \<^verbatim>\<open>SIGTERM\<close> to the process of the session, ends its log
  stream, sends the update with status \<^verbatim>\<open>stopped\<close> and the current time, deletes the
  entry and returns \<^verbatim>\<open>true\<close>, in this order and doing nothing else; the stream then
  has no session, and a second \<^verbatim>\<open>stopStream\<close> returns \<^verbatim>\<open>false\<close> without any
  effect.
\<close>

theorem stopStream_spec:
  "(\<not> has streamId s \<longrightarrow> stopStream streamId s = (False, s)) \<and>
   (map_of (activeStreams s) streamId = Some entry \<longrightarrow>
      (\<exists>s'. stopStream streamId s = (True, s') \<and>
            trace s' = trace s @
              [Kill (process entry) ''SIGTERM'', EndSink (logStream entry),
               Query (UpdateEnded ''stopped'' (now s) streamId), RegDelete streamId] \<and>
            activeStreams s' = AList.delete streamId (activeStreams s) \<and>
            \<not> has streamId s' \<and>
            stopStream streamId s' = (False, s')))"
proof (intro conjI impI)
  assume "\<not> has streamId s"
  then show "stopStream streamId s = (False, s)" by (rule stopStream_absent)
next
  assume p: "map_of (activeStreams s) streamId = Some entry"
  let ?s' = "s\<lparr>activeStreams := AList.delete streamId (activeStreams s),
        trace := trace s @ [Kill (process entry) ''SIGTERM'', EndSink (logStream entry),
                            Query (UpdateEnded ''stopped'' (now s) streamId),
                            RegDelete streamId]\<rparr>"
  have n: "\<not> has streamId ?s'" by (simp add: has_def delete_conv')
  have "stopStream streamId s = (True, ?s')" using p by (rule stopStream_present)
  moreover have "stopStream streamId ?s' = (False, ?s')" using n by (rule stopStream_absent)
  ultimately show "\<exists>s'. stopStream streamId s = (True, s') \<and>
            trace s' = trace s @
              [Kill (process entry) ''SIGTERM'', EndSink (logStream entry),
               Query (UpdateEnded ''stopped'' (now s) streamId), RegDelete streamId] \<and>
            activeStreams s' = AList.delete streamId (activeStreams s) \<and>
            \<not> has streamId s' \<and>
            stopStream streamId s' = (False, s')"
    using n by simp
qed

text \<open>
  The theorem at the sample state, for stream 7 (no session) and stream 1 (a session).
\<close>

theorem stopStream_spec_witness:
  "\<not> has 7 exActive \<and> stopStream 7 exActive = (False, exActive) \<and>
   map_of (activeStreams exActive) 1 =
     Some \<lparr>process = 0, logFilename = generateLogFilename exEnv 0 1, logStream = 0,
           startTime = 0, platforms = [exRtmp]\<rparr> \<and>
   (\<exists>s'. stopStream 1 exActive = (True, s') \<and>
         trace s' = trace exActive @
           [Kill 0 ''SIGTERM'', EndSink 0, Query (UpdateEnded ''stopped'' 0 1), RegDelete 1] \<and>
         activeStreams s' = [] \<and>
         stopStream 1 s' = (False, s'))"
proof -
  have a: "\<not> has 7 exActive" by (simp add: has_def exActive_registry)
  have b: "map_of (activeStreams exActive) 1 =
     Some \<lparr>process = 0, logFilename = generateLogFilename exEnv 0 1, logStream = 0,
           startTime = 0, platforms = [exRtmp]\<rparr>"
    by (simp add: exActive_registry)
  from a stopStream_spec [of 7 exActive] have c: "stopStream 7 exActive = (False, exActive)"
    by blast
  from b stopStream_spec [of 1 exActive "\<lparr>process = 0, logFilename = generateLogFilename exEnv 0 1,
      logStream = 0, startTime = 0, platforms = [exRtmp]\<rparr>"] exActive_rest exActive_registry
  have d: "\<exists>s'. stopStream 1 exActive = (True, s') \<and>
         trace s' = trace exActive @
           [Kill 0 ''SIGTERM'', EndSink 0, Query (UpdateEnded ''stopped'' 0 1), RegDelete 1] \<and>
         activeStreams s' = [] \<and>
         stopStream 1 s' = (False, s')"
    by auto
  from a b c d show ?thesis by blast
qed

subsection \<open>The exit of a process\<close>

lemma processExits_listening:
  assumes "p < length (procs s)" "exited (procs s ! p) = None" "listener (procs s ! p)"
  shows "processExits p code s =
     (Some (pjob (procs s ! p)),
      s\<lparr>procs := (procs s)[p := (procs s ! p)\<lparr>exited := Some code\<rparr>],
        trace := trace s @ [EndSink (plog (procs s ! p)),
                            Query (UpdateEnded (if code = Some 0 then ''completed'' else ''failed'')
                                     (now s) (pjob (procs s ! p)))]\<rparr>)"
  using assms by (simp add: processExits_def exitHandler_sync_def emit_def Let_def)

lemma stopStream_sync_present:
  assumes "map_of (activeStreams s) streamId = Some entry"
  shows "stopStream_sync streamId s =
     (True, s\<lparr>trace := trace s @ [Kill (process entry) ''SIGTERM'', EndSink (logStream entry),
                                  Query (UpdateEnded ''stopped'' (now s) streamId)]\<rparr>)"
  using assms by (simp add: stopStream_sync_def emit_def)

lemma stopStream_sync_absent:
  assumes "map_of (activeStreams s) streamId = None"
  shows "stopStream_sync streamId s = (False, s)"
  using assms by (simp add: stopStream_sync_def)

lemma race_stop_then_exit:
  assumes "p < length (procs s)" "exited (procs s ! p) = None" "listener (procs s ! p)"
      and "map_of (activeStreams s) (pjob (procs s ! p)) = Some entry"
  shows "activeStreams (fst (foldl step (s, [])
            [StopRequest (pjob (procs s ! p)), Resume 0, ExitOf p code, Resume 0]))
         = AList.delete (pjob (procs s ! p)) (activeStreams s)"
    and "snd (foldl step (s, [])
            [StopRequest (pjob (procs s ! p)), Resume 0, ExitOf p code, Resume 0]) = []"
  using assms
  by (simp_all add: stopStream_sync_present processExits_listening stopStream_resume_def
                    exitHandler_resume_def emit_def delete_idem)

lemma race_stop_exit_stop_exit:
  assumes "p < length (procs s)" "exited (procs s ! p) = None" "listener (procs s ! p)"
      and "map_of (activeStreams s) (pjob (procs s ! p)) = Some entry"
  shows "activeStreams (fst (foldl step (s, [])
            [StopRequest (pjob (procs s ! p)), ExitOf p code, Resume 0, Resume 0]))
         = AList.delete (pjob (procs s ! p)) (activeStreams s)"
    and "snd (foldl step (s, [])
            [StopRequest (pjob (procs s ! p)), ExitOf p code, Resume 0, Resume 0]) = []"
  using assms
  by (simp_all add: stopStream_sync_present processExits_listening stopStream_resume_def
                    exitHandler_resume_def emit_def delete_idem)

lemma race_stop_exit_exit_stop:
  assumes "p < length (procs s)" "exited (procs s ! p) = None" "listener (procs s ! p)"
      and "map_of (activeStreams s) (pjob (procs s ! p)) = Some entry"
  shows "activeStreams (fst (foldl step (s, [])
            [StopRequest (pjob (procs s ! p)), ExitOf p code, Resume 1, Resume 0]))
         = AList.delete (pjob (procs s ! p)) (activeStreams s)"
    and "snd (foldl step (s, [])
            [StopRequest (pjob (procs s ! p)), ExitOf p code, Resume 1, Resume 0]) = []"
  using assms
  by (simp_all add: stopStream_sync_present processExits_listening stopStream_resume_def
                    exitHandler_resume_def emit_def delete_idem)

lemma race_exit_stop_stop_exit:
  assumes "p < length (procs s)" "exited (procs s ! p) = None" "listener (procs s ! p)"
      and "map_of (activeStreams s) (pjob (procs s ! p)) = Some entry"
  shows "activeStreams (fst (foldl step (s, [])
            [ExitOf p code, StopRequest (pjob (procs s ! p)), Resume 1, Resume 0]))
         = AList.delete (pjob (procs s ! p)) (activeStreams s)"
    and "snd (foldl step (s, [])
            [ExitOf p code, StopRequest (pjob (procs s ! p)), Resume 1, Resume 0]) = []"
  using assms
  by (simp_all add: stopStream_sync_present processExits_listening stopStream_resume_def
                    exitHandler_resume_def emit_def delete_idem)

lemma race_exit_stop_exit_stop:
  assumes "p < length (procs s)" "exited (procs s ! p) = None" "listener (procs s ! p)"
      and "map_of (activeStreams s) (pjob (procs s ! p)) = Some entry"
  shows "activeStreams (fst (foldl step (s, [])
            [ExitOf p code, StopRequest (pjob (procs s ! p)), Resume 0, Resume 0]))
         = AList.delete (pjob (procs s ! p)) (activeStreams s)"
    and "snd (foldl step (s, [])
            [ExitOf p code, StopRequest (pjob (procs s ! p)), Resume 0, Resume 0]) = []"
  using assms
  by (simp_all add: stopStream_sync_present processExits_listening stopStream_resume_def
                    exitHandler_resume_def emit_def delete_idem)

lemma race_exit_then_stop:
  assumes "p < length (procs s)" "exited (procs s ! p) = None" "listener (procs s ! p)"
  shows "activeStreams (fst (foldl step (s, [])
            [ExitOf p code, Resume 0, StopRequest (pjob (procs s ! p))]))
         = AList.delete (pjob (procs s ! p)) (activeStreams s)"
    and "snd (foldl step (s, [])
            [ExitOf p code, Resume 0, StopRequest (pjob (procs s ! p))]) = []"
  using assms
  by (simp_all add: processExits_listening stopStream_sync_absent
                    exitHandler_resume_def emit_def delete_conv')

text \<open>
  The exit listener. When a process whose \<^verbatim>\<open>exit\<close> listener is attached exits, the
  listener ends the log stream of that start, sends the update with status
  \<^verbatim>\<open>completed\<close> when the exit code is 0 and \<^verbatim>\<open>failed\<close> for every other code and
  for an exit by signal, together with the current time as end time, and deletes the entry
  of the stream, in this order and doing nothing else. Afterwards the stream has no
  session and the entries of other streams are as before; when the stream had no entry
  the map is unchanged. When the exit races a stop request for the same stream, the map
  ends, in each of the six orders of the event loop, as the map of the start without the
  entry of the stream, with no call left suspended.
\<close>

theorem exitReaction_spec:
  assumes "p < length (procs s)" and "exited (procs s ! p) = None" and "listener (procs s ! p)"
  shows "trace (exitReaction p code s) = trace s @
           [EndSink (plog (procs s ! p)),
            Query (UpdateEnded (if code = Some 0 then ''completed'' else ''failed'')
                     (now s) (pjob (procs s ! p))),
            RegDelete (pjob (procs s ! p))] \<and>
         activeStreams (exitReaction p code s) =
           AList.delete (pjob (procs s ! p)) (activeStreams s) \<and>
         \<not> has (pjob (procs s ! p)) (exitReaction p code s) \<and>
         (\<forall>other. other \<noteq> pjob (procs s ! p) \<longrightarrow>
            map_of (activeStreams (exitReaction p code s)) other = map_of (activeStreams s) other) \<and>
         (\<not> has (pjob (procs s ! p)) s \<longrightarrow>
            activeStreams (exitReaction p code s) = activeStreams s) \<and>
         exited (procs (exitReaction p code s) ! p) = Some code \<and>
         (map_of (activeStreams s) (pjob (procs s ! p)) = Some entry \<longrightarrow>
            (\<forall>evs \<in> set (stopExitInterleavings (pjob (procs s ! p)) p code).
               activeStreams (fst (foldl step (s, []) evs)) =
                 AList.delete (pjob (procs s ! p)) (activeStreams s) \<and>
               snd (foldl step (s, []) evs) = []))"
proof -
  note r = exitReaction_listening [OF assms, of code]
  have a: "trace (exitReaction p code s) = trace s @
           [EndSink (plog (procs s ! p)),
            Query (UpdateEnded (if code = Some 0 then ''completed'' else ''failed'')
                     (now s) (pjob (procs s ! p))),
            RegDelete (pjob (procs s ! p))]"
    by (simp add: r)
  have b: "activeStreams (exitReaction p code s) =
           AList.delete (pjob (procs s ! p)) (activeStreams s)"
    by (simp add: r)
  have c: "\<not> has (pjob (procs s ! p)) (exitReaction p code s)"
    by (simp add: has_def b delete_conv')
  have d: "\<forall>other. other \<noteq> pjob (procs s ! p) \<longrightarrow>
            map_of (activeStreams (exitReaction p code s)) other = map_of (activeStreams s) other"
    by (simp add: b delete_conv')
  have e: "\<not> has (pjob (procs s ! p)) s \<longrightarrow>
            activeStreams (exitReaction p code s) = activeStreams s"
  proof
    assume "\<not> has (pjob (procs s ! p)) s"
    then have "pjob (procs s ! p) \<notin> fst ` set (activeStreams s)"
      by (simp add: has_def map_of_eq_None_iff)
    then show "activeStreams (exitReaction p code s) = activeStreams s"
      by (simp add: b)
  qed
  have f: "exited (procs (exitReaction p code s) ! p) = Some code"
    using assms(1) by (simp add: r)
  have g: "map_of (activeStreams s) (pjob (procs s ! p)) = Some entry \<longrightarrow>
            (\<forall>evs \<in> set (stopExitInterleavings (pjob (procs s ! p)) p code).
               activeStreams (fst (foldl step (s, []) evs)) =
                 AList.delete (pjob (procs s ! p)) (activeStreams s) \<and>
               snd (foldl step (s, []) evs) = [])"
  proof
    assume h: "map_of (activeStreams s) (pjob (procs s ! p)) = Some entry"
    show "\<forall>evs \<in> set (stopExitInterleavings (pjob (procs s ! p)) p code).
               activeStreams (fst (foldl step (s, []) evs)) =
                 AList.delete (pjob (procs s ! p)) (activeStreams s) \<and>
               snd (foldl step (s, []) evs) = []"
      unfolding stopExitInterleavings_def
      using race_stop_then_exit [OF assms h] race_stop_exit_stop_exit [OF assms h]
            race_stop_exit_exit_stop [OF assms h] race_exit_stop_stop_exit [OF assms h]
            race_exit_stop_exit_stop [OF assms h] race_exit_then_stop [OF assms]
      by simp
  qed
  from a b c d e f g show ?thesis by blast
qed

text \<open>
  The same at the sample state, for the exit codes 1, \<^verbatim>\<open>null\<close> and 0 of process 0,
  and for one order of the race.
\<close>

theorem exitReaction_spec_witness:
  "0 < length (procs exActive) \<and> exited (procs exActive ! 0) = None \<and>
   listener (procs exActive ! 0) \<and>
   trace (exitReaction 0 (Some 1) exActive) =
     trace exActive @ [EndSink 0, Query (UpdateEnded ''failed'' 0 1), RegDelete 1] \<and>
   trace (exitReaction 0 None exActive) =
     trace exActive @ [EndSink 0, Query (UpdateEnded ''failed'' 0 1), RegDelete 1] \<and>
   trace (exitReaction 0 (Some 0) exActive) =
     trace exActive @ [EndSink 0, Query (UpdateEnded ''completed'' 0 1), RegDelete 1] \<and>
   activeStreams (exitReaction 0 (Some 1) exActive) = [] \<and>
   activeStreams (fst (foldl step (exActive, [])
       [StopRequest 1, ExitOf 0 None, Resume 1, Resume 0])) = []"
proof -
  have a: "0 < length (procs exActive)" and b: "exited (procs exActive ! 0) = None"
    and c: "listener (procs exActive ! 0)"
    using exActive_procs by simp_all
  note inst = exitReaction_spec [OF a b c]
  have h: "map_of (activeStreams exActive) (pjob (procs exActive ! 0)) =
            Some \<lparr>process = 0, logFilename = generateLogFilename exEnv 0 1, logStream = 0,
                  startTime = 0, platforms = [exRtmp]\<rparr>"
    using exActive_procs by (simp add: exActive_registry)
  have d: "trace (exitReaction 0 (Some 1) exActive) =
     trace exActive @ [EndSink 0, Query (UpdateEnded ''failed'' 0 1), RegDelete 1]"
    using inst [of "Some 1"] exActive_procs exActive_rest by simp
  have e: "trace (exitReaction 0 None exActive) =
     trace exActive @ [EndSink 0, Query (UpdateEnded ''failed'' 0 1), RegDelete 1]"
    using inst [of None] exActive_procs exActive_rest by simp
  have f: "trace (exitReaction 0 (Some 0) exActive) =
     trace exActive @ [EndSink 0, Query (UpdateEnded ''completed'' 0 1), RegDelete 1]"
    using inst [of "Some 0"] exActive_procs exActive_rest by simp
  have g: "activeStreams (exitReaction 0 (Some 1) exActive) = []"
    using inst [of "Some 1"] exActive_procs by (simp add: exActive_registry)
  have "[StopRequest 1, ExitOf 0 None, Resume 1, Resume 0]
        \<in> set (stopExitInterleavings (pjob (procs exActive ! 0)) 0 None)"
    using exActive_procs by (simp add: stopExitInterleavings_def)
  with inst [of None] h
  have "activeStreams (fst (foldl step (exActive, [])
       [StopRequest 1, ExitOf 0 None, Resume 1, Resume 0])) =
       AList.delete (pjob (procs exActive ! 0)) (activeStreams exActive)"
    by blast
  then have i: "activeStreams (fst (foldl step (exActive, [])
       [StopRequest 1, ExitOf 0 None, Resume 1, Resume 0])) = []"
    using exActive_procs by (simp add: exActive_registry)
  from a b c d e f g i show ?thesis by blast
qed

text \<open>
  C7. The claim is that whenever a supervised process exits, the exit reaction closes
  the log sink, persists \<^verbatim>\<open>completed\<close> or \<^verbatim>\<open>failed\<close> with an end time and removes
  the entry of the stream. The code does so only for a process whose listener is attached,
  and \<^verbatim>\<open>startStream\<close> attaches the listener after it has stored the session and
  awaited the \<^verbatim>\<open>active\<close> update. Here the process of stream 1 exits with code 1 during
  that \<^verbatim>\<open>await\<close>: when \<^verbatim>\<open>startStream\<close> has resumed, stream 1 still has its
  session, the process has exited, the trace holds the four effects of the start and
  nothing of an exit reaction (no log stream ended, no \<^verbatim>\<open>failed\<close> update, no entry
  deleted), no call is suspended, and a further exit event of the process changes
  nothing.
\<close>

theorem exit_in_start_window:
  "has 1 (fst exEarlyExit) \<and>
   exited (procs (fst exEarlyExit) ! 0) = Some (Some 1) \<and>
   trace (fst exEarlyExit) =
     [OpenSink 0 (generateLogFilename exEnv 0 1), Spawn 0, RegSet 1,
      Query (UpdateStarted ''active'' 0 (generateLogFilename exEnv 0 1) 1)] \<and>
   snd exEarlyExit = [] \<and>
   step exEarlyExit (ExitOf 0 (Some 1)) = exEarlyExit"
  by (simp add: exEarlyExit_def run_def initial_def startStream_sync_spawned [OF exRtmp_command]
                processExits_def Let_def has_def)

subsection \<open>One entry for a stream\<close>

lemma startStream_sync_distinct:
  assumes "distinct (map fst (activeStreams s))"
  shows "distinct (map fst (activeStreams
           (snd (startStream_sync e spawnError streamId videoPath plats s))))"
proof (cases "createFFmpegCommand videoPath plats")
  case (Inl err)
  with assms show ?thesis by (simp add: startStream_sync_build_error)
next
  case (Inr cmd)
  with assms show ?thesis
    by (cases spawnError)
       (simp_all add: startStream_sync_spawned startStream_sync_spawn_error distinct_update)
qed

lemma startStream_resume_registry:
  "activeStreams (snd (startStream_resume w s)) = activeStreams s"
  by (cases w) simp_all

lemma stopStream_sync_registry:
  "activeStreams (snd (stopStream_sync streamId s)) = activeStreams s"
  by (simp add: stopStream_sync_def emit_def split: option.splits)

lemma processExits_registry:
  "activeStreams (snd (processExits p code s)) = activeStreams s"
  by (simp add: processExits_def exitHandler_sync_def emit_def Let_def)

lemma resume_distinct:
  assumes "distinct (map fst (activeStreams s))"
  shows "distinct (map fst (activeStreams (resume k s)))"
  using assms
  by (cases k)
     (simp_all add: startStream_resume_registry stopStream_resume_def exitHandler_resume_def
                    emit_def distinct_delete)

lemma step_distinct:
  assumes "distinct (map fst (activeStreams s))"
  shows "distinct (map fst (activeStreams (fst (step (s, ks) ev))))"
proof (cases ev)
  case (StartRequest e spawnError streamId videoPath plats)
  with startStream_sync_distinct [OF assms, of e spawnError streamId videoPath plats]
  show ?thesis by (auto split: prod.splits)
next
  case (StopRequest streamId)
  with stopStream_sync_registry [of streamId s] assms
  show ?thesis by (auto split: prod.splits bool.splits)
next
  case (ExitOf p code)
  with processExits_registry [of p code s] assms
  show ?thesis by (auto split: prod.splits option.splits)
next
  case (Resume i)
  with resume_distinct [OF assms, of "ks ! i"] assms
  show ?thesis by simp
next
  case (Clock t)
  with assms show ?thesis by simp
next
  case (Statement q)
  with assms show ?thesis by (simp add: emit_def)
qed

lemma run_distinct: "distinct (map fst (activeStreams (fst (run t evs))))"
proof (induction evs rule: rev_induct)
  case Nil
  show ?case by (simp add: run_def initial_def)
next
  case (snoc ev evs)
  obtain s ks where c: "foldl step (initial t, []) evs = (s, ks)" by (cases "foldl step (initial t, []) evs")
  with snoc have "distinct (map fst (activeStreams s))" by (simp add: run_def)
  then have "distinct (map fst (activeStreams (fst (step (s, ks) ev))))" by (rule step_distinct)
  with c show ?case by (simp add: run_def)
qed

lemma distinct_at_most_one:
  "distinct (map fst xs) \<Longrightarrow> length (filter (\<lambda>entry. fst entry = k) xs) \<le> 1"
proof (induction xs)
  case Nil
  show ?case by simp
next
  case (Cons x xs)
  show ?case
  proof (cases "fst x = k")
    case True
    with Cons.prems have "k \<notin> fst ` set xs" by auto
    then have "filter (\<lambda>entry. fst entry = k) xs = []"
      by (auto simp add: filter_empty_conv)
    with True show ?thesis by simp
  next
    case False
    with Cons show ?thesis by simp
  qed
qed

lemma startStream_distinct:
  assumes "distinct (map fst (activeStreams s))"
  shows "distinct (map fst (activeStreams
           (snd (startStream e spawnError streamId videoPath plats s))))"
  using startStream_sync_distinct [OF assms, of e spawnError streamId videoPath plats]
  by (auto simp add: startStream_def startStream_resume_registry split: prod.splits)

lemma stopStream_distinct:
  assumes "distinct (map fst (activeStreams s))"
  shows "distinct (map fst (activeStreams (snd (stopStream streamId s))))"
proof (cases "map_of (activeStreams s) streamId")
  case None
  with assms show ?thesis by (simp add: stopStream_absent has_def)
next
  case (Some entry)
  with assms show ?thesis by (simp add: stopStream_present distinct_delete)
qed

lemma exitReaction_distinct:
  assumes "distinct (map fst (activeStreams s))"
  shows "distinct (map fst (activeStreams (exitReaction p code s)))"
  using assms
  by (simp add: exitReaction_def processExits_def exitHandler_sync_def exitHandler_resume_def
                emit_def Let_def distinct_delete)

text \<open>
  C2, as stated, fails for the processes. After two start requests for stream 1 (and
  the resumption of both calls) two processes spawned for stream 1 are running, while the
  map holds one entry for stream 1.
\<close>

theorem two_live_processes_counterexample:
  "length (liveProcs 1 (fst (run 0
      [StartRequest exEnv None 1 ''uploads/a.mp4'' [exRtmp],
       StartRequest exEnv None 1 ''uploads/a.mp4'' [exRtmp], Resume 0, Resume 0]))) = 2 \<and>
   liveProcs 1 (fst (run 0
      [StartRequest exEnv None 1 ''uploads/a.mp4'' [exRtmp],
       StartRequest exEnv None 1 ''uploads/a.mp4'' [exRtmp], Resume 0, Resume 0])) = [0, 1] \<and>
   map fst (activeStreams (fst (run 0
      [StartRequest exEnv None 1 ''uploads/a.mp4'' [exRtmp],
       StartRequest exEnv None 1 ''uploads/a.mp4'' [exRtmp], Resume 0, Resume 0]))) = [1]"
  by (simp add: run_def initial_def startStream_sync_spawned [OF exRtmp_command]
                liveProcs_def upt_rec [of 0] upt_rec [of 1] upt_rec [of "Suc 0"] nth_append)

text \<open>
  C2, amended. In every state the event loop can reach from the initial one, whatever
  the order of start requests, stop requests, exits, resumptions and the other events, the
  keys of \<^verbatim>\<open>activeStreams\<close> are distinct: the map holds at most one session for a
  stream id. Every step of the event loop preserves this, and so do \<^verbatim>\<open>startStream\<close>,
  \<^verbatim>\<open>stopStream\<close> and the exit of a process run without interleaving. (Nothing bounds
  the number of running processes of a stream.)
\<close>

theorem registry_one_session_per_id:
  "distinct (map fst (activeStreams (fst (run t evs)))) \<and>
   length (filter (\<lambda>entry. fst entry = streamId) (activeStreams (fst (run t evs)))) \<le> 1 \<and>
   (distinct (map fst (activeStreams s)) \<longrightarrow>
      distinct (map fst (activeStreams (fst (step (s, ks) ev)))) \<and>
      distinct (map fst (activeStreams
         (snd (startStream e spawnError streamId videoPath plats s)))) \<and>
      distinct (map fst (activeStreams (snd (stopStream streamId s)))) \<and>
      distinct (map fst (activeStreams (exitReaction p code s))))"
  using run_distinct [of t evs] distinct_at_most_one [OF run_distinct, of streamId t evs]
        step_distinct [of s ks ev]
        startStream_distinct [of s e spawnError streamId videoPath plats]
        stopStream_distinct [of s streamId] exitReaction_distinct [of s p code]
  by blast

text \<open>
  The theorem at a run with two start requests for stream 1, and at a step from the
  sample state.
\<close>

theorem registry_one_session_per_id_witness:
  "distinct (map fst (activeStreams (fst (run 0
      [StartRequest exEnv None 1 ''uploads/a.mp4'' [exRtmp],
       StartRequest exEnv None 2 ''uploads/b.mp4'' [exCustom],
       StartRequest exEnv None 1 ''uploads/a.mp4'' [exRtmp], Resume 1, StopRequest 2])))) \<and>
   distinct (map fst (activeStreams exActive)) \<and>
   distinct (map fst (activeStreams (fst (step (exActive, [])
      (StartRequest exEnv None 1 ''uploads/a.mp4'' [exRtmp]))))) \<and>
   distinct (map fst (activeStreams (snd (stopStream 1 exActive))))"
proof -
  have a: "distinct (map fst (activeStreams exActive))"
    by (simp add: exActive_registry)
  from registry_one_session_per_id [of 0 "[StartRequest exEnv None 1 ''uploads/a.mp4'' [exRtmp],
       StartRequest exEnv None 2 ''uploads/b.mp4'' [exCustom],
       StartRequest exEnv None 1 ''uploads/a.mp4'' [exRtmp], Resume 1, StopRequest 2]"
       1 exActive "[]" "StartRequest exEnv None 1 ''uploads/a.mp4'' [exRtmp]"] a
  show ?thesis by blast
qed

subsection \<open>The scheduler tick\<close>

lemma processRow_missing:
  assumes "\<not> existsSync (pathJoin e (uploadDir e) (video_path stream))"
  shows "processRow e existsSync spawnError stream s =
     s\<lparr>trace := trace s @
         [Query (UpdateError ''failed'' ''Video file not found'' (row_id stream))]\<rparr>"
  using assms by (simp add: processRow_def emit_def)

lemma processRow_present:
  assumes "existsSync (pathJoin e (uploadDir e) (video_path stream))"
  shows "processRow e existsSync spawnError stream s =
     snd (startStream e (spawnError (row_id stream)) (row_id stream)
            (pathJoin e (uploadDir e) (video_path stream)) (row_platforms stream) s)"
  using assms by (simp add: processRow_def)

lemma startStream_shape:
  "\<exists>rest. trace (snd (startStream e spawnError streamId videoPath plats s)) =
            trace s @ OpenSink (sinkCount s) (generateLogFilename e (now s) streamId) # rest \<and>
          ((\<exists>msg. rest = [Query (UpdateError ''failed'' msg streamId)] \<and>
                  procs (snd (startStream e spawnError streamId videoPath plats s)) = procs s) \<or>
           (\<exists>pr. rest = [Spawn (length (procs s)), RegSet streamId,
                    Query (UpdateStarted ''active'' (now s)
                             (generateLogFilename e (now s) streamId) streamId)] \<and>
                 procs (snd (startStream e spawnError streamId videoPath plats s)) = procs s @ [pr] \<and>
                 pjob pr = streamId))"
proof (cases "createFFmpegCommand videoPath plats")
  case (Inl err)
  then have "createFFmpegCommand videoPath plats = Inl err \<or>
           (createFFmpegCommand videoPath plats = Inr [] \<and> spawnError = Some err)" by simp
  from startStream_failed [OF this] show ?thesis by simp
next
  case (Inr cmd)
  show ?thesis
  proof (cases spawnError)
    case None
    with startStream_started [OF Inr] show ?thesis by simp
  next
    case (Some err)
    with Inr have "createFFmpegCommand videoPath plats = Inl err \<or>
           (createFFmpegCommand videoPath plats = Inr cmd \<and> spawnError = Some err)" by simp
    from startStream_failed [OF this] show ?thesis by simp
  qed
qed

lemma startStream_now:
  "now (snd (startStream e spawnError streamId videoPath plats s)) = now s"
proof (cases "createFFmpegCommand videoPath plats")
  case (Inl err)
  then have "createFFmpegCommand videoPath plats = Inl err \<or>
           (createFFmpegCommand videoPath plats = Inr [] \<and> spawnError = Some err)" by simp
  from startStream_failed [OF this] show ?thesis by simp
next
  case (Inr cmd)
  show ?thesis
  proof (cases spawnError)
    case None
    with startStream_started [OF Inr] show ?thesis by simp
  next
    case (Some err)
    with Inr have "createFFmpegCommand videoPath plats = Inl err \<or>
           (createFFmpegCommand videoPath plats = Inr cmd \<and> spawnError = Some err)" by simp
    from startStream_failed [OF this] show ?thesis by simp
  qed
qed

lemma processRow_now: "now (processRow e existsSync spawnError stream s) = now s"
  by (cases "existsSync (pathJoin e (uploadDir e) (video_path stream))")
     (simp_all add: processRow_missing processRow_present startStream_now)

lemma processScheduledStreams_snoc:
  "processScheduledStreams e existsSync spawnError (rows @ [stream]) s =
     processRow e existsSync spawnError stream
       (processScheduledStreams e existsSync spawnError rows s)"
  by (simp add: processScheduledStreams_def)

lemma processScheduledStreams_now:
  "now (processScheduledStreams e existsSync spawnError rows s) = now s"
  by (induction rows rule: rev_induct)
     (simp_all add: processScheduledStreams_snoc processRow_now,
      simp add: processScheduledStreams_def emit_def)

lemma processRow_shape:
  "\<exists>seg. trace (processRow e existsSync spawnError stream s) = trace s @ seg \<and>
     (\<not> existsSync (pathJoin e (uploadDir e) (video_path stream)) \<longrightarrow>
        seg = [Query (UpdateError ''failed'' ''Video file not found'' (row_id stream))] \<and>
        procs (processRow e existsSync spawnError stream s) = procs s) \<and>
     (existsSync (pathJoin e (uploadDir e) (video_path stream)) \<longrightarrow>
        (\<exists>sink rest.
           seg = OpenSink sink (generateLogFilename e (now s) (row_id stream)) # rest \<and>
           ((\<exists>msg. rest = [Query (UpdateError ''failed'' msg (row_id stream))] \<and>
                   procs (processRow e existsSync spawnError stream s) = procs s) \<or>
            (\<exists>p pr. rest = [Spawn p, RegSet (row_id stream),
                      Query (UpdateStarted ''active'' (now s)
                               (generateLogFilename e (now s) (row_id stream)) (row_id stream))] \<and>
                   procs (processRow e existsSync spawnError stream s) = procs s @ [pr] \<and>
                   pjob pr = row_id stream))))"
proof (cases "existsSync (pathJoin e (uploadDir e) (video_path stream))")
  case False
  then show ?thesis by (simp add: processRow_missing)
next
  case True
  from startStream_shape [of e "spawnError (row_id stream)" "row_id stream"
         "pathJoin e (uploadDir e) (video_path stream)" "row_platforms stream" s]
  show ?thesis
    unfolding processRow_present [of existsSync e stream spawnError s, OF True] using True by blast
qed

text \<open>
  C8, as stated, fails in one point: the error text sent for a missing file is the
  fixed string \<^verbatim>\<open>Video file not found\<close>; the path goes to \<^verbatim>\<open>console.error\<close>
  only. For the row with video path \<^verbatim>\<open>a.mp4\<close> and a file system without that file,
  the tick sends the \<^verbatim>\<open>SELECT\<close> and one update, whose error text contains neither
  the path nor the file name.
\<close>

theorem missing_file_error_counterexample:
  "pathJoin exEnv (uploadDir exEnv) (video_path exRowA) = ''uploads/a.mp4'' \<and>
   \<not> exNoFiles ''uploads/a.mp4'' \<and>
   trace (processScheduledStreams exEnv exNoFiles exSpawnOk [exRowA] (initial 0)) =
     [Query (SelectDue 0), Query (UpdateError ''failed'' ''Video file not found'' 1)] \<and>
   \<not> sublist ''uploads/a.mp4'' ''Video file not found'' \<and>
   \<not> sublist ''a.mp4'' ''Video file not found''"
proof -
  have a: "pathJoin exEnv (uploadDir exEnv) (video_path exRowA) = ''uploads/a.mp4''"
    by (simp add: exEnv_def exRowA_def)
  have b: "\<not> exNoFiles ''uploads/a.mp4''" by (simp add: exNoFiles_def)
  have c: "trace (processScheduledStreams exEnv exNoFiles exSpawnOk [exRowA] (initial 0)) =
     [Query (SelectDue 0), Query (UpdateError ''failed'' ''Video file not found'' 1)]"
    by (simp add: processScheduledStreams_def processRow_def exNoFiles_def emit_def initial_def
                  exRowA_def)
  have "CHR ''.'' \<notin> set ''Video file not found''" by simp
  then have d: "\<not> sublist ''uploads/a.mp4'' ''Video file not found''"
    and e: "\<not> sublist ''a.mp4'' ''Video file not found''"
    using set_mono_sublist [of "''uploads/a.mp4''" "''Video file not found''"]
          set_mono_sublist [of "''a.mp4''" "''Video file not found''"]
    by auto
  from a b c d e show ?thesis by blast
qed

text \<open>
  C8, amended. A tick sends the \<^verbatim>\<open>SELECT\<close> and then handles every row of the
  result, in order, whatever happened with the rows before it: the effects after the
  \<^verbatim>\<open>SELECT\<close> are one segment for each row. For a row whose file is missing the segment
  is the single update with status \<^verbatim>\<open>failed\<close> and the text
  \<^verbatim>\<open>Video file not found\<close>: no log stream is opened and \<^verbatim>\<open>spawn\<close> is not called.
  For a row whose file exists the segment is the one of a call of \<^verbatim>\<open>startStream\<close>: it
  opens the log stream of the row and either sends a \<^verbatim>\<open>failed\<close> update or spawns,
  registers and sends the \<^verbatim>\<open>active\<close> update. Every process spawned during the tick
  is spawned for a row whose file exists.
\<close>

theorem processScheduledStreams_spec:
  "\<exists>segs.
     length segs = length rows \<and>
     trace (processScheduledStreams e existsSync spawnError rows s) =
       trace s @ Query (SelectDue (now s)) # concat segs \<and>
     (\<forall>i < length rows.
        (\<not> existsSync (pathJoin e (uploadDir e) (video_path (rows ! i))) \<longrightarrow>
           segs ! i = [Query (UpdateError ''failed'' ''Video file not found''
                                (row_id (rows ! i)))]) \<and>
        (existsSync (pathJoin e (uploadDir e) (video_path (rows ! i))) \<longrightarrow>
           (\<exists>sink rest.
              segs ! i = OpenSink sink (generateLogFilename e (now s) (row_id (rows ! i))) # rest \<and>
              ((\<exists>msg. rest = [Query (UpdateError ''failed'' msg (row_id (rows ! i)))]) \<or>
               (\<exists>p. rest = [Spawn p, RegSet (row_id (rows ! i)),
                         Query (UpdateStarted ''active'' (now s)
                                  (generateLogFilename e (now s) (row_id (rows ! i)))
                                  (row_id (rows ! i)))]))))) \<and>
     length (procs s) \<le> length (procs (processScheduledStreams e existsSync spawnError rows s)) \<and>
     (\<forall>pr \<in> set (drop (length (procs s))
                      (procs (processScheduledStreams e existsSync spawnError rows s))).
        \<exists>stream \<in> set rows.
          pjob pr = row_id stream \<and>
          existsSync (pathJoin e (uploadDir e) (video_path stream)))"
proof (induction rows rule: rev_induct)
  case Nil
  show ?case by (simp add: processScheduledStreams_def emit_def)
next
  case (snoc stream rows)
  let ?tick = "processScheduledStreams e existsSync spawnError"
  let ?s' = "?tick rows s"
  let ?s'' = "processRow e existsSync spawnError stream ?s'"
  have now': "now ?s' = now s" by (rule processScheduledStreams_now)
  from snoc.IH obtain segs where
        len: "length segs = length rows"
    and tr: "trace ?s' = trace s @ Query (SelectDue (now s)) # concat segs"
    and each: "\<forall>i < length rows.
        (\<not> existsSync (pathJoin e (uploadDir e) (video_path (rows ! i))) \<longrightarrow>
           segs ! i = [Query (UpdateError ''failed'' ''Video file not found''
                                (row_id (rows ! i)))]) \<and>
        (existsSync (pathJoin e (uploadDir e) (video_path (rows ! i))) \<longrightarrow>
           (\<exists>sink rest.
              segs ! i = OpenSink sink (generateLogFilename e (now s) (row_id (rows ! i))) # rest \<and>
              ((\<exists>msg. rest = [Query (UpdateError ''failed'' msg (row_id (rows ! i)))]) \<or>
               (\<exists>p. rest = [Spawn p, RegSet (row_id (rows ! i)),
                         Query (UpdateStarted ''active'' (now s)
                                  (generateLogFilename e (now s) (row_id (rows ! i)))
                                  (row_id (rows ! i)))]))))"
    and mono: "length (procs s) \<le> length (procs ?s')"
    and new: "\<forall>pr \<in> set (drop (length (procs s)) (procs ?s')).
        \<exists>stream \<in> set rows.
          pjob pr = row_id stream \<and>
          existsSync (pathJoin e (uploadDir e) (video_path stream))"
    by blast
  from processRow_shape [of e existsSync spawnError stream ?s'] obtain seg where
        tr': "trace ?s'' = trace ?s' @ seg"
    and missing: "\<not> existsSync (pathJoin e (uploadDir e) (video_path stream)) \<longrightarrow>
        seg = [Query (UpdateError ''failed'' ''Video file not found'' (row_id stream))] \<and>
        procs ?s'' = procs ?s'"
    and present: "existsSync (pathJoin e (uploadDir e) (video_path stream)) \<longrightarrow>
        (\<exists>sink rest.
           seg = OpenSink sink (generateLogFilename e (now ?s') (row_id stream)) # rest \<and>
           ((\<exists>msg. rest = [Query (UpdateError ''failed'' msg (row_id stream))] \<and>
                   procs ?s'' = procs ?s') \<or>
            (\<exists>p pr. rest = [Spawn p, RegSet (row_id stream),
                      Query (UpdateStarted ''active'' (now ?s')
                               (generateLogFilename e (now ?s') (row_id stream)) (row_id stream))] \<and>
                   procs ?s'' = procs ?s' @ [pr] \<and>
                   pjob pr = row_id stream)))"
    by blast
  have step: "?tick (rows @ [stream]) s = ?s''" by (rule processScheduledStreams_snoc)
  have a: "length (segs @ [seg]) = length (rows @ [stream])" using len by simp
  have b: "trace ?s'' = trace s @ Query (SelectDue (now s)) # concat (segs @ [seg])"
    using tr tr' by simp
  have c: "\<forall>i < length (rows @ [stream]).
        (\<not> existsSync (pathJoin e (uploadDir e) (video_path ((rows @ [stream]) ! i))) \<longrightarrow>
           (segs @ [seg]) ! i = [Query (UpdateError ''failed'' ''Video file not found''
                                (row_id ((rows @ [stream]) ! i)))]) \<and>
        (existsSync (pathJoin e (uploadDir e) (video_path ((rows @ [stream]) ! i))) \<longrightarrow>
           (\<exists>sink rest.
              (segs @ [seg]) ! i =
                 OpenSink sink (generateLogFilename e (now s) (row_id ((rows @ [stream]) ! i))) # rest \<and>
              ((\<exists>msg. rest = [Query (UpdateError ''failed'' msg (row_id ((rows @ [stream]) ! i)))]) \<or>
               (\<exists>p. rest = [Spawn p, RegSet (row_id ((rows @ [stream]) ! i)),
                         Query (UpdateStarted ''active'' (now s)
                                  (generateLogFilename e (now s) (row_id ((rows @ [stream]) ! i)))
                                  (row_id ((rows @ [stream]) ! i)))]))))"
  proof (intro allI impI)
    fix i assume "i < length (rows @ [stream])"
    then consider "i < length rows" | "i = length rows" by fastforce
    then show "(\<not> existsSync (pathJoin e (uploadDir e) (video_path ((rows @ [stream]) ! i))) \<longrightarrow>
           (segs @ [seg]) ! i = [Query (UpdateError ''failed'' ''Video file not found''
                                (row_id ((rows @ [stream]) ! i)))]) \<and>
        (existsSync (pathJoin e (uploadDir e) (video_path ((rows @ [stream]) ! i))) \<longrightarrow>
           (\<exists>sink rest.
              (segs @ [seg]) ! i =
                 OpenSink sink (generateLogFilename e (now s) (row_id ((rows @ [stream]) ! i))) # rest \<and>
              ((\<exists>msg. rest = [Query (UpdateError ''failed'' msg (row_id ((rows @ [stream]) ! i)))]) \<or>
               (\<exists>p. rest = [Spawn p, RegSet (row_id ((rows @ [stream]) ! i)),
                         Query (UpdateStarted ''active'' (now s)
                                  (generateLogFilename e (now s) (row_id ((rows @ [stream]) ! i)))
                                  (row_id ((rows @ [stream]) ! i)))]))))"
    proof cases
      case 1
      with each len show ?thesis by (simp add: nth_append)
    next
      case 2
      have "(rows @ [stream]) ! i = stream" "(segs @ [seg]) ! i = seg"
        using 2 len by (simp_all add: nth_append)
      with missing present now' show ?thesis by auto
    qed
  qed
  have grow: "procs ?s'' = procs ?s' \<or>
              (\<exists>pr. procs ?s'' = procs ?s' @ [pr] \<and> pjob pr = row_id stream \<and>
                    existsSync (pathJoin e (uploadDir e) (video_path stream)))"
    using missing present by blast
  have d: "length (procs s) \<le> length (procs ?s'')"
    using mono grow by auto
  have f: "\<forall>pr \<in> set (drop (length (procs s)) (procs ?s'')).
        \<exists>stream' \<in> set (rows @ [stream]).
          pjob pr = row_id stream' \<and>
          existsSync (pathJoin e (uploadDir e) (video_path stream'))"
    using grow
  proof
    assume "procs ?s'' = procs ?s'"
    with new show ?thesis by auto
  next
    assume "\<exists>pr. procs ?s'' = procs ?s' @ [pr] \<and> pjob pr = row_id stream \<and>
                    existsSync (pathJoin e (uploadDir e) (video_path stream))"
    then obtain pr where pr: "procs ?s'' = procs ?s' @ [pr]" "pjob pr = row_id stream"
         "existsSync (pathJoin e (uploadDir e) (video_path stream))" by blast
    from pr(1) mono have "drop (length (procs s)) (procs ?s'')
                          = drop (length (procs s)) (procs ?s') @ [pr]" by simp
    with new pr(2,3) show ?thesis by auto
  qed
  from a b c d f show ?case unfolding step by blast
qed

text \<open>
  The theorem at a result of two rows, where the file of the first is missing and the
  file of the second exists.
\<close>

theorem processScheduledStreams_spec_witness:
  "\<not> exOnlyB (pathJoin exEnv (uploadDir exEnv) (video_path exRowA)) \<and>
   exOnlyB (pathJoin exEnv (uploadDir exEnv) (video_path exRowB)) \<and>
   (\<exists>segs. length segs = 2 \<and>
      trace (processScheduledStreams exEnv exOnlyB exSpawnOk [exRowA, exRowB] (initial 0)) =
        Query (SelectDue 0) # concat segs \<and>
      segs ! 0 = [Query (UpdateError ''failed'' ''Video file not found'' 1)] \<and>
      (\<exists>sink rest. segs ! 1 = OpenSink sink (generateLogFilename exEnv 0 2) # rest))"
proof -
  have a: "\<not> exOnlyB (pathJoin exEnv (uploadDir exEnv) (video_path exRowA))"
    by (simp add: exOnlyB_def exEnv_def exRowA_def)
  have b: "exOnlyB (pathJoin exEnv (uploadDir exEnv) (video_path exRowB))"
    by (simp add: exOnlyB_def exEnv_def exRowB_def)
  from processScheduledStreams_spec [of "[exRowA, exRowB]" exEnv exOnlyB exSpawnOk "initial 0"]
  obtain segs where
        len: "length segs = length [exRowA, exRowB]"
    and tr: "trace (processScheduledStreams exEnv exOnlyB exSpawnOk [exRowA, exRowB] (initial 0)) =
       trace (initial 0) @ Query (SelectDue (now (initial 0))) # concat segs"
    and each: "\<forall>i < length [exRowA, exRowB].
        (\<not> exOnlyB (pathJoin exEnv (uploadDir exEnv) (video_path ([exRowA, exRowB] ! i))) \<longrightarrow>
           segs ! i = [Query (UpdateError ''failed'' ''Video file not found''
                                (row_id ([exRowA, exRowB] ! i)))]) \<and>
        (exOnlyB (pathJoin exEnv (uploadDir exEnv) (video_path ([exRowA, exRowB] ! i))) \<longrightarrow>
           (\<exists>sink rest.
              segs ! i = OpenSink sink (generateLogFilename exEnv (now (initial 0))
                                          (row_id ([exRowA, exRowB] ! i))) # rest \<and>
              ((\<exists>msg. rest = [Query (UpdateError ''failed'' msg (row_id ([exRowA, exRowB] ! i)))]) \<or>
               (\<exists>p. rest = [Spawn p, RegSet (row_id ([exRowA, exRowB] ! i)),
                         Query (UpdateStarted ''active'' (now (initial 0))
                                  (generateLogFilename exEnv (now (initial 0))
                                     (row_id ([exRowA, exRowB] ! i)))
                                  (row_id ([exRowA, exRowB] ! i)))]))))"
    by blast
  from each a have s0: "segs ! 0 = [Query (UpdateError ''failed'' ''Video file not found'' 1)]"
    by (auto simp add: exRowA_def)
  have "(1::nat) < length [exRowA, exRowB]" by simp
  with each b have s1: "\<exists>sink rest. segs ! 1 = OpenSink sink (generateLogFilename exEnv 0 2) # rest"
    by (auto simp add: exRowB_def initial_def dest!: spec [of _ 1])
  from len tr s0 s1 have "length segs = 2 \<and>
      trace (processScheduledStreams exEnv exOnlyB exSpawnOk [exRowA, exRowB] (initial 0)) =
        Query (SelectDue 0) # concat segs \<and>
      segs ! 0 = [Query (UpdateError ''failed'' ''Video file not found'' 1)] \<and>
      (\<exists>sink rest. segs ! 1 = OpenSink sink (generateLogFilename exEnv 0 2) # rest)"
    by (simp add: initial_def)
  with a b show ?thesis by blast
qed

subsection \<open>Shutdown\<close>







lemma sigtermLoop_cases:
  obtains (empty) "activeStreams s = []"
      "sigtermLoop s = (AwaitPgEnd, s\<lparr>trace := trace s @ [PgEnd]\<rparr>)"
    | (entry) streamId entry rest where "activeStreams s = (streamId, entry) # rest"
      "sigtermLoop s =
        (InStop streamId,
         s\<lparr>trace := trace s @ [Kill (process entry) ''SIGTERM'', EndSink (logStream entry),
                                Query (UpdateEnded ''stopped'' (now s) streamId)]\<rparr>)"
proof (cases "activeStreams s")
  case Nil
  then have "sigtermLoop s = (AwaitPgEnd, s\<lparr>trace := trace s @ [PgEnd]\<rparr>)"
    by (simp add: sigtermLoop_def emit_def)
  with Nil show ?thesis by (rule empty)
next
  case (Cons x rest)
  obtain streamId entry where "x = (streamId, entry)" by (cases x)
  with Cons have a: "activeStreams s = (streamId, entry) # rest" by simp
  then have "map_of (activeStreams s) streamId = Some entry" by simp
  from stopStream_sync_present [OF this] a
  have "sigtermLoop s =
        (InStop streamId,
         s\<lparr>trace := trace s @ [Kill (process entry) ''SIGTERM'', EndSink (logStream entry),
                                Query (UpdateEnded ''stopped'' (now s) streamId)]\<rparr>)"
    by (simp add: sigtermLoop_def)
  with a show ?thesis by (rule entry)
qed








lemma exActive2_registry:
  "activeStreams exActive2 =
     [(1, \<lparr>process = 0, logFilename = generateLogFilename exEnv 0 1, logStream = 0,
           startTime = 0, platforms = [exRtmp]\<rparr>),
      (2, \<lparr>process = 1, logFilename = generateLogFilename exEnv 0 2, logStream = 1,
           startTime = 0, platforms = [exCustom]\<rparr>)]"
  using exActive_procs exActive_rest
  by (simp add: exActive2_def startStream_started [OF exCustom_command] exActive_registry)

lemma exActive2_now: "now exActive2 = 0"
  using exActive_rest
  by (simp add: exActive2_def startStream_started [OF exCustom_command])

lemma exActive2_procs:
  "length (procs exActive2) = 2 \<and>
   pjob (procs exActive2 ! 0) = 1 \<and> plog (procs exActive2 ! 0) = 0 \<and>
   listener (procs exActive2 ! 0) \<and> exited (procs exActive2 ! 0) = None \<and>
   pjob (procs exActive2 ! 1) = 2 \<and> plog (procs exActive2 ! 1) = 1 \<and>
   listener (procs exActive2 ! 1) \<and> exited (procs exActive2 ! 1) = None"
  using exActive_procs exActive_rest
  by (simp add: exActive2_def startStream_started [OF exCustom_command] nth_append)




text \<open>
  When the processes that were sent \<^verbatim>\<open>SIGTERM\<close> exit before the worker does, their
  listeners send \<^verbatim>\<open>failed\<close> after the handler has sent \<^verbatim>\<open>stopped\<close>.
\<close>

lemma stopped_then_failed:
  "trace (fst (foldl stepS (exActive2, [], [], False)
      [Sigterm, ResumeHandler 0, Loop (ExitOf 0 None), ResumeHandler 0, ResumeHandler 0,
       Loop (ExitOf 1 None), Loop (Resume 0), Loop (Resume 0),
       ResumeHandler 0, ResumeHandler 0, ResumeHandler 0])) =
     trace exActive2 @
     [Kill 0 ''SIGTERM'', EndSink 0, Query (UpdateEnded ''stopped'' 0 1), RegDelete 1,
      EndSink 0, Query (UpdateEnded ''failed'' 0 1),
      Kill 1 ''SIGTERM'', EndSink 1, Query (UpdateEnded ''stopped'' 0 2), RegDelete 2,
      EndSink 1, Query (UpdateEnded ''failed'' 0 2), RegDelete 1, RegDelete 2,
      PgEnd, RedisQuit, ProcessExit 0]"
  using exActive2_procs
  by (simp add: exActive2_registry exActive2_now sigtermLoop_def stopStream_sync_def
                stopStream_resume_def processExits_def exitHandler_sync_def
                exitHandler_resume_def emit_def Let_def)

text \<open>
  The steps of the handler keep the keys of the map distinct.
\<close>

lemma stepS_distinct:
  assumes "distinct (map fst (activeStreams s))"
  shows "distinct (map fst (activeStreams (fst (stepS (s, ks, hs, ex) ev))))"
proof (cases ex)
  case True
  with assms show ?thesis by simp
next
  case False
  show ?thesis
  proof (cases ev)
    case (Loop e)
    with False step_distinct [OF assms, of ks e] show ?thesis
      by (auto split: prod.splits)
  next
    case Sigterm
    with False assms show ?thesis
      by (cases s rule: sigtermLoop_cases) simp_all
  next
    case (ResumeHandler i)
    show ?thesis
    proof (cases "i < length hs")
      case False
      with \<open>\<not> ex\<close> ResumeHandler assms show ?thesis by simp
    next
      case True
      show ?thesis
      proof (cases "hs ! i")
        case (InStop k)
        with True \<open>\<not> ex\<close> ResumeHandler assms show ?thesis
          by (simp add: stopStream_resume_def emit_def distinct_delete)
      next
        case AfterStop
        with True \<open>\<not> ex\<close> ResumeHandler assms show ?thesis
          by (cases s rule: sigtermLoop_cases) simp_all
      next
        case AwaitPgEnd
        with True \<open>\<not> ex\<close> ResumeHandler assms show ?thesis by (simp add: emit_def)
      next
        case AwaitRedisQuit
        with True \<open>\<not> ex\<close> ResumeHandler assms show ?thesis by (simp add: emit_def)
      qed
    qed
  qed
qed

end
